theory Spec2Isabelle
  imports Complex_Main
begin

section \<open>Partial effects of a fitted additive model\<close>

text \<open>
  A shallow embedding of \<^verbatim>\<open>inspection/partial_effect.py\<close>: grid generation
  (\<^verbatim>\<open>generate_X_grid\<close>), the partial effect of one term with its credible band
  (\<^verbatim>\<open>partial_effect\<close>) and the display built from an estimator
  (\<^verbatim>\<open>PartialEffectDisplay.from_estimator\<close>).

  Finite floating point numbers are idealised as real numbers: rounding and overflow are not
  modelled. One-dimensional arrays are lists, two-dimensional arrays are lists of rows; an
  exception raised by the Python code is the \<open>Inl\<close> branch of a sum.
\<close>

subsection \<open>Exceptions\<close>

datatype error =
    TypeError string
  | ValueError string
  | NotFittedError
  | IndexError
  | AssertionError
  | AttributeError

definition ebind :: "error + 'a \<Rightarrow> ('a \<Rightarrow> error + 'b) \<Rightarrow> error + 'b" where
  "ebind m f = (case m of Inl e \<Rightarrow> Inl e | Inr x \<Rightarrow> f x)"

subsection \<open>Arrays\<close>

type_synonym vec = "real list"
type_synonym matrix = "real list list"

text \<open>An array of shape \<open>(n, k)\<close>: \<open>n\<close> rows, each of length \<open>k\<close>.\<close>

definition is_matrix :: "nat \<Rightarrow> nat \<Rightarrow> matrix \<Rightarrow> bool" where
  "is_matrix n k A \<longleftrightarrow> length A = n \<and> list_all (\<lambda>r. length r = k) A"

definition dot :: "vec \<Rightarrow> vec \<Rightarrow> real" where
  "dot u v = sum_list (map2 (*) u v)"

text \<open>The columns of an array, each as a list.\<close>

definition columns :: "matrix \<Rightarrow> vec list" where
  "columns B = (case B of [] \<Rightarrow> [] | r # _ \<Rightarrow> map (\<lambda>j. map (\<lambda>row. row ! j) B) [0..<length r])"

text \<open>\<^verbatim>\<open>A @ B\<close> for two-dimensional arrays: the inner dimensions must agree.\<close>

definition matmul :: "matrix \<Rightarrow> matrix \<Rightarrow> error + matrix" where
  "matmul A B =
     (if list_all (\<lambda>r. length r = length B) A
      then Inr (map (\<lambda>r. map (dot r) (columns B)) A)
      else Inl (ValueError ''matmul: dimension mismatch''))"

text \<open>\<^verbatim>\<open>A @ B.T\<close>: the transpose is a view, so the product pairs rows of \<open>A\<close> with rows of \<open>B\<close>.\<close>

definition matmul_T :: "matrix \<Rightarrow> matrix \<Rightarrow> error + matrix" where
  "matmul_T A B =
     (if list_all (\<lambda>r. list_all (\<lambda>s. length r = length s) B) A
      then Inr (map (\<lambda>r. map (dot r) B) A)
      else Inl (ValueError ''matmul: dimension mismatch''))"

text \<open>\<^verbatim>\<open>A @ v\<close> for a two-dimensional \<open>A\<close> and a one-dimensional \<open>v\<close>.\<close>

definition matvec :: "matrix \<Rightarrow> vec \<Rightarrow> error + vec" where
  "matvec A v =
     (if list_all (\<lambda>r. length r = length v) A
      then Inr (map (\<lambda>r. dot r v) A)
      else Inl (ValueError ''matmul: dimension mismatch''))"

text \<open>\<^verbatim>\<open>A * B\<close>, elementwise, for two arrays of the same shape.\<close>

definition hadamard :: "matrix \<Rightarrow> matrix \<Rightarrow> error + matrix" where
  "hadamard A B =
     (if length A = length B \<and> list_all2 (\<lambda>r s. length r = length s) A B
      then Inr (map2 (map2 (*)) A B)
      else Inl (ValueError ''operands could not be broadcast together''))"

text \<open>\<^verbatim>\<open>np.sum(A, axis=1)\<close>.\<close>

definition sum_axis1 :: "matrix \<Rightarrow> vec" where
  "sum_axis1 A = map sum_list A"

text \<open>\<^verbatim>\<open>np.diag(A)\<close> of a two-dimensional array: the main diagonal.\<close>

definition diag :: "matrix \<Rightarrow> vec" where
  "diag A = map (\<lambda>(i, r). r ! i) (filter (\<lambda>(i, r). i < length r) (enumerate 0 A))"

text \<open>
  An index into an axis of length \<open>n\<close>: negative indices count from the end, anything outside
  \<open>[-n, n)\<close> raises.
\<close>

definition py_index :: "nat \<Rightarrow> int \<Rightarrow> error + nat" where
  "py_index n i =
     (let j = (if i < 0 then int n + i else i)
      in if 0 \<le> j \<and> j < int n then Inr (nat j) else Inl IndexError)"

fun sequence :: "(error + 'a) list \<Rightarrow> error + 'a list" where
  "sequence [] = Inr []"
| "sequence (m # ms) = ebind m (\<lambda>x. ebind (sequence ms) (\<lambda>xs. Inr (x # xs)))"

definition ncols :: "matrix \<Rightarrow> nat" where
  "ncols A = (case A of [] \<Rightarrow> 0 | r # _ \<Rightarrow> length r)"

text \<open>\<^verbatim>\<open>A[np.ix_(rs, cs)]\<close> for a two-dimensional array.\<close>

definition ix_sub :: "matrix \<Rightarrow> int list \<Rightarrow> int list \<Rightarrow> error + matrix" where
  "ix_sub A rs cs =
     ebind (sequence (map (py_index (length A)) rs)) (\<lambda>rs'.
     ebind (sequence (map (py_index (ncols A)) cs)) (\<lambda>cs'.
       Inr (map (\<lambda>i. map (\<lambda>j. A ! i ! j) cs') rs')))"

subsection \<open>The variance of the linear predictor\<close>

text \<open>\<^verbatim>\<open>np.sum((X @ V) * X, axis=1)\<close>: the quadratic form of every row, without the full product.\<close>

definition fast_variance :: "matrix \<Rightarrow> matrix \<Rightarrow> error + vec" where
  "fast_variance X V =
     ebind (matmul X V) (\<lambda>XV.
     ebind (hadamard XV X) (\<lambda>H. Inr (sum_axis1 H)))"

text \<open>\<^verbatim>\<open>np.diag(X @ V @ X.T)\<close>.\<close>

definition explicit_variance :: "matrix \<Rightarrow> matrix \<Rightarrow> error + vec" where
  "explicit_variance X V =
     ebind (matmul X V) (\<lambda>XV.
     ebind (matmul_T XV X) (\<lambda>P. Inr (diag P)))"


text \<open>
  \<^verbatim>\<open>np.allclose(a, b)\<close> with its default tolerances \<open>rtol = 1e-5\<close> and \<open>atol = 1e-8\<close>, for
  two one-dimensional arrays of the same length.
\<close>

definition allclose :: "vec \<Rightarrow> vec \<Rightarrow> bool" where
  "allclose a b \<longleftrightarrow> list_all2 (\<lambda>u v. \<bar>u - v\<bar> \<le> 1 / 10 ^ 8 + (1 / 10 ^ 5) * \<bar>v\<bar>) a b"

subsection \<open>Values that may be infinite or undefined\<close>

text \<open>
  A Python float is a finite number, an infinity or NaN. Data of the fitted model are finite;
  what comes out of a link function, or from the scalar \<^verbatim>\<open>standard_deviations\<close>, need not
  be. The operations follow IEEE 754 on the special values and are exact on finite ones.
\<close>

datatype xreal = Fin real | PInf | NInf | NaN

fun xneg :: "xreal \<Rightarrow> xreal" where
  "xneg (Fin a) = Fin (- a)"
| "xneg PInf = NInf"
| "xneg NInf = PInf"
| "xneg NaN = NaN"

fun xadd :: "xreal \<Rightarrow> xreal \<Rightarrow> xreal" where
  "xadd NaN b = NaN"
| "xadd a NaN = NaN"
| "xadd (Fin a) (Fin b) = Fin (a + b)"
| "xadd PInf NInf = NaN"
| "xadd NInf PInf = NaN"
| "xadd PInf b = PInf"
| "xadd a PInf = PInf"
| "xadd NInf b = NInf"
| "xadd a NInf = NInf"

definition xsub :: "xreal \<Rightarrow> xreal \<Rightarrow> xreal" where
  "xsub a b = xadd a (xneg b)"

definition xsign :: "xreal \<Rightarrow> int" where
  "xsign a = (case a of Fin r \<Rightarrow> (if r < 0 then - 1 else if r = 0 then 0 else 1)
                | PInf \<Rightarrow> 1 | NInf \<Rightarrow> - 1 | NaN \<Rightarrow> 0)"

fun xmul :: "xreal \<Rightarrow> xreal \<Rightarrow> xreal" where
  "xmul NaN b = NaN"
| "xmul a NaN = NaN"
| "xmul (Fin a) (Fin b) = Fin (a * b)"
| "xmul a b = (if xsign a * xsign b = 0 then NaN else if xsign a * xsign b < 0 then NInf else PInf)"

fun xle :: "xreal \<Rightarrow> xreal \<Rightarrow> bool" where
  "xle NaN b = False"
| "xle a NaN = False"
| "xle (Fin a) (Fin b) = (a \<le> b)"
| "xle NInf b = True"
| "xle a PInf = True"
| "xle a b = False"

text \<open>\<^verbatim>\<open>np.maximum\<close> and \<^verbatim>\<open>np.minimum\<close> on two scalars: NaN wins.\<close>

definition xmax :: "xreal \<Rightarrow> xreal \<Rightarrow> xreal" where
  "xmax a b = (if a = NaN \<or> b = NaN then NaN else if xle a b then b else a)"

definition xmin :: "xreal \<Rightarrow> xreal \<Rightarrow> xreal" where
  "xmin a b = (if a = NaN \<or> b = NaN then NaN else if xle a b then a else b)"

text \<open>An elementwise operation on two one-dimensional arrays of the same length.\<close>

definition vzip :: "('a \<Rightarrow> 'b \<Rightarrow> 'c) \<Rightarrow> 'a list \<Rightarrow> 'b list \<Rightarrow> error + 'c list" where
  "vzip f u v =
     (if length u = length v then Inr (map2 f u v)
      else Inl (ValueError ''operands could not be broadcast together''))"

subsection \<open>Terms, links and the fitted model\<close>

datatype term_kind = Intercept | Linear | Spline | Categorical | Tensor | OtherKind string

datatype feature = ByIndex int | ByName string

text \<open>
  A term object: its class, the feature it reads, whether it carries fitted attributes, its
  coefficients \<^verbatim>\<open>coef_\<close>, their positions \<^verbatim>\<open>coef_idx_\<close> in the model, the levels
  \<^verbatim>\<open>categories_\<close> of a Categorical and the sub-terms a Tensor iterates over.
  \<open>OtherKind\<close> is a subclass of \<^verbatim>\<open>Term\<close> outside the five of the library.
\<close>

datatype gam_term =
  Term (kind: term_kind) (feature: feature) (fitted: bool) (term_coef: vec)
       (coef_idx: "int list") (categories: vec) (splines: "gam_term list")

text \<open>
  Modelled from the spec: \<^verbatim>\<open>term.set_params(feature=f)\<close> of the terms module, which is
  not among the sources. A term that reads a feature column takes the new label. An
  Intercept reads none, and \<^verbatim>\<open>set_params\<close> of scikit-learn raises a \<open>ValueError\<close> for a
  parameter the estimator does not have. A term of any other class is taken to have one.
\<close>

fun set_params_feature :: "gam_term \<Rightarrow> feature \<Rightarrow> error + gam_term" where
  "set_params_feature (Term k f fit c ci cats subs) f' =
     (if k = Intercept then Inl (ValueError ''Invalid parameter feature for estimator Intercept'')
      else Inr (Term k f' fit c ci cats subs))"

record link =
  link :: "xreal \<Rightarrow> xreal"
  inverse_link :: "xreal \<Rightarrow> xreal"
  domain :: "xreal \<times> xreal"

text \<open>
  The fitted model. \<open>terms\<close> holds the addresses of the model's term objects;
  \<open>gam_X\<close>, \<open>gam_y\<close>, \<open>model_matrix\<close> and \<open>gam_coef\<close> are the attributes
  \<^verbatim>\<open>X_\<close>, \<^verbatim>\<open>y_\<close>, \<^verbatim>\<open>model_matrix_\<close> and \<^verbatim>\<open>coef_\<close>, \<open>covariance\<close> is
  \<^verbatim>\<open>results_.covariance\<close> and \<open>gam_link\<close> is \<^verbatim>\<open>_link\<close>.
\<close>

record gam =
  gam_fitted :: bool
  terms :: "nat list"
  gam_X :: matrix
  gam_y :: vec
  model_matrix :: matrix
  gam_coef :: vec
  covariance :: matrix
  gam_link :: link

text \<open>An argument that is an instance of the expected class, or some other object (by its text).\<close>

datatype 'a pyobj = Obj 'a | Other string

text \<open>An array of up to two dimensions.\<close>

datatype ndarr = A0 real | A1 vec | A2 matrix

definition flat :: "ndarr \<Rightarrow> vec" where
  "flat a = (case a of A0 v \<Rightarrow> [v] | A1 v \<Rightarrow> v | A2 m \<Rightarrow> concat m)"

text \<open>
  The methods of the collaborators that are not part of this module, taken as parameters:
  \<^verbatim>\<open>term.transform(X)\<close> (it may change the term it is called on, and is handed
  \<open>None\<close> when no grid was built), \<^verbatim>\<open>term._get_column(X, selector="feature")\<close>,
  \<^verbatim>\<open>gam.predict(X)\<close> and the equality \<^verbatim>\<open>==\<close> of two terms.
\<close>

record env =
  transform :: "gam_term \<Rightarrow> matrix option \<Rightarrow> error + (matrix \<times> gam_term)"
  get_column :: "gam_term \<Rightarrow> matrix \<Rightarrow> error + ndarr"
  predict :: "gam \<Rightarrow> matrix \<Rightarrow> error + xreal list"
  term_eq :: "gam_term \<Rightarrow> gam_term \<Rightarrow> bool"


subsection \<open>Grid generation\<close>

text \<open>\<^verbatim>\<open>np.min\<close> and \<^verbatim>\<open>np.max\<close> over all elements: an empty array raises.\<close>

definition np_min :: "ndarr \<Rightarrow> error + real" where
  "np_min a = (case flat a of [] \<Rightarrow> Inl (ValueError ''zero-size array'')
                 | v # vs \<Rightarrow> Inr (Min (set (v # vs))))"

definition np_max :: "ndarr \<Rightarrow> error + real" where
  "np_max a = (case flat a of [] \<Rightarrow> Inl (ValueError ''zero-size array'')
                 | v # vs \<Rightarrow> Inr (Max (set (v # vs))))"

text \<open>
  \<^verbatim>\<open>np.linspace(start, stop, num=num)\<close>: \<open>num\<close> samples with step
  \<open>(stop - start) / (num - 1)\<close>, the last one set to \<open>stop\<close>; a single sample is \<open>start\<close>.
\<close>

definition linspace :: "real \<Rightarrow> real \<Rightarrow> int \<Rightarrow> error + vec" where
  "linspace start stop num =
     (if num < 0 then Inl (ValueError ''Number of samples must be non-negative'')
      else if num = 1 then Inr [start]
      else Inr (map (\<lambda>i. if i = nat num - 1 then stop
                           else start + real i * ((stop - start) / real_of_int (num - 1)))
                    [0..<nat num]))"

text \<open>\<^verbatim>\<open>a.reshape(-1, 1)\<close> of a one-dimensional array: one element per row.\<close>

definition reshape_col :: "vec \<Rightarrow> matrix" where
  "reshape_col v = map (\<lambda>a. [a]) v"

text \<open>
  Modelled from the spec: \<^verbatim>\<open>cartesian\<close> of \<^verbatim>\<open>generalized_additive_models.utils\<close>, which
  is not among the sources. The full cartesian product of the axes, the rows in lexicographic
  order over the axes with the last axis varying fastest.
\<close>

fun cartesian :: "vec list \<Rightarrow> matrix" where
  "cartesian [] = [[]]"
| "cartesian (a # as) = concat (map (\<lambda>v. map ((#) v) (cartesian as)) a)"

text \<open>An array of any dimension: its shape and its elements in row-major order.\<close>

record ndarray =
  nd_shape :: "nat list"
  nd_data :: vec

text \<open>
  \<^verbatim>\<open>np.meshgrid(*axes, indexing="ij")\<close>: one array per axis, each of shape
  \<open>(n\<^sub>1, ..., n\<^sub>k)\<close>; the \<open>j\<close>-th holds \<open>axes[j][i\<^sub>j]\<close> at position \<open>(i\<^sub>1, ..., i\<^sub>k)\<close>.
\<close>

definition meshgrid_ij :: "vec list \<Rightarrow> ndarray list" where
  "meshgrid_ij axes =
     map (\<lambda>j. \<lparr>nd_shape = map length axes,
               nd_data = map (\<lambda>idx. axes ! j ! (idx ! j))
                             (product_lists (map (\<lambda>a. [0..<length a]) axes))\<rparr>)
         [0..<length axes]"

text \<open>
  What \<^verbatim>\<open>generate_X_grid\<close> returns: an array, the pair of a cartesian grid and a
  meshgrid, or \<open>None\<close> when no branch returns.
\<close>

datatype grid = Grid matrix | TensorGrid matrix "ndarray list" | NoGrid

text \<open>\<^verbatim>\<open>.ravel()\<close> on the result for a sub-term: only an array has it.\<close>

definition ravel :: "grid \<Rightarrow> error + vec" where
  "ravel g = (case g of Grid m \<Rightarrow> Inr (concat m) | _ \<Rightarrow> Inl AttributeError)"

function (sequential) generate_X_grid ::
  "env \<Rightarrow> gam pyobj \<Rightarrow> gam_term pyobj \<Rightarrow> matrix \<Rightarrow> real \<Rightarrow> int \<Rightarrow> error + grid" where
  "generate_X_grid E (Other s) term X extrapolation num =
     Inl (TypeError (''Parameter `gam` must be instance of GAM, found: '' @ s))"
| "generate_X_grid E (Obj g) (Other s) X extrapolation num =
     Inl (TypeError (''Parameter `term` must be instance of Term, found: '' @ s))"
| "generate_X_grid E (Obj g) (Obj (Term k f fit c ci cats subs)) X extrapolation num =
     (if \<not> gam_fitted g then Inl NotFittedError
      else if \<not> fit then Inl NotFittedError
      else if k = Intercept then Inr (Grid [[1]])
      else if k = Linear \<or> k = Spline then
        ebind (get_column E (Term k f fit c ci cats subs) X) (\<lambda>X_data.
        ebind (np_min X_data) (\<lambda>min_v.
        ebind (np_max X_data) (\<lambda>max_v.
          let offset = (max_v - min_v) * extrapolation in
          ebind (linspace (min_v - offset) (max_v + offset) num) (\<lambda>l.
            Inr (Grid (reshape_col l))))))
      else if k = Categorical then Inr (Grid (reshape_col cats))
      else if k = Tensor then
        ebind (sequence (map (\<lambda>spline.
                 ebind (generate_X_grid E (Obj g) (Obj spline) X extrapolation num) ravel) subs))
          (\<lambda>linspaces. Inr (TensorGrid (cartesian linspaces) (meshgrid_ij linspaces)))
      else Inr NoGrid)"
  by pat_completeness auto

termination
proof (relation "measure (\<lambda>(E, g, t, X, e, n). case t of Obj t' \<Rightarrow> size t' | Other s \<Rightarrow> 0)")
  show "wf (measure (\<lambda>(E, g, t, X, e, n). case t of Obj t' \<Rightarrow> size t' | Other s \<Rightarrow> 0))"
    by simp
next
  fix E :: env and g :: gam and k f fit c ci cats and subs :: "gam_term list"
    and X :: matrix and extrapolation :: real and num :: int and x :: gam_term
  assume "x \<in> set subs"
  then have "size x < Suc (size_list size subs)"
    by (induction subs) auto
  then show "((E, Obj g, Obj x, X, extrapolation, num),
              (E, Obj g, Obj (Term k f fit c ci cats subs), X, extrapolation, num))
             \<in> measure (\<lambda>(E, g, t, X, e, n). case t of Obj t' \<Rightarrow> size t' | Other s \<Rightarrow> 0)"
    by simp
qed


subsection \<open>The partial effect of a term\<close>

text \<open>
  Term objects live in a store, addressed by position; the model and the caller refer to them
  by address. \<^verbatim>\<open>copy.deepcopy\<close> allocates a new object with the same contents.
\<close>

type_synonym heap = "gam_term list"

definition deepcopy :: "heap \<Rightarrow> nat \<Rightarrow> heap \<times> nat" where
  "deepcopy h a = (h @ [h ! a], length h)"

text \<open>The scalar argument \<^verbatim>\<open>standard_deviations\<close>: a real number, or some other object.\<close>

datatype py_value = RealNum xreal | NotReal string

text \<open>
  \<^verbatim>\<open>check_scalar(x, name, target_type=Real, min_val=0, include_boundaries="neither")\<close> of
  scikit-learn: the type is checked, then \<open>x \<le> min_val\<close> raises.
\<close>

definition check_scalar :: "py_value \<Rightarrow> error + xreal" where
  "check_scalar v =
     (case v of
        NotReal s \<Rightarrow> Inl (TypeError ''standard_deviations must be an instance of float'')
      | RealNum r \<Rightarrow>
          if xle r (Fin 0) then Inl (ValueError ''standard_deviations must be > 0.'')
          else Inr r)"

text \<open>\<^verbatim>\<open>term in gam.terms\<close>: some element is the same object or equal to it.\<close>

definition term_in :: "env \<Rightarrow> heap \<Rightarrow> nat \<Rightarrow> nat list \<Rightarrow> bool" where
  "term_in E h a ts = list_ex (\<lambda>b. b = a \<or> term_eq E (h ! b) (h ! a)) ts"

text \<open>
  The grid for the copied term and the relabelling that follows it (lines 131 to 138, and 291
  to 298): the sub-terms of a Tensor are numbered by position, any other term reads feature 0;
  either fails where \<^verbatim>\<open>set_params\<close> does. \<^verbatim>\<open>generate_X_grid\<close> returns a pair exactly
  for a Tensor, so the two mismatching cases below are never reached.
\<close>

definition relabel :: "gam_term \<Rightarrow> error + gam_term" where
  "relabel t =
     (case t of Term k f fit c ci cats subs \<Rightarrow>
        ebind (sequence (map (\<lambda>(i, spline). set_params_feature spline (ByIndex (int i)))
                          (enumerate 0 subs)))
          (\<lambda>subs'. Inr (Term k f fit c ci cats subs')))"

definition smooth_grid ::
  "env \<Rightarrow> gam \<Rightarrow> gam_term \<Rightarrow> int \<Rightarrow> error + (matrix option \<times> ndarray list option \<times> gam_term)" where
  "smooth_grid E g t num =
     (if kind t = Tensor then
        ebind (generate_X_grid E (Obj g) (Obj t) (gam_X g) (1 / 100) num) (\<lambda>r.
          case r of
            TensorGrid X_smooth meshgrid \<Rightarrow>
              ebind (relabel t) (\<lambda>t'. Inr (Some X_smooth, Some meshgrid, t'))
          | Grid m \<Rightarrow> Inl (ValueError ''cannot unpack'')
          | NoGrid \<Rightarrow> Inl (TypeError ''cannot unpack non-iterable NoneType object''))
      else
        ebind (generate_X_grid E (Obj g) (Obj t) (gam_X g) (1 / 100) num) (\<lambda>r.
          case r of
            Grid X_smooth \<Rightarrow>
              ebind (set_params_feature t (ByIndex 0)) (\<lambda>t'. Inr (Some X_smooth, None, t'))
          | NoGrid \<Rightarrow>
              ebind (set_params_feature t (ByIndex 0)) (\<lambda>t'. Inr (None, None, t'))
          | TensorGrid c m \<Rightarrow> Inl (TypeError ''a pair where an array is expected'')))"

text \<open>
  The standard deviation of the linear predictor on the grid, with the two assertions of the
  source (lines 154 to 156, and 314 to 316). The square root of a negative number is NaN in
  NumPy and negative here: the first assertion fails in both.
\<close>

definition stdev_checked :: "matrix \<Rightarrow> matrix \<Rightarrow> error + vec" where
  "stdev_checked X V =
     ebind (fast_variance X V) (\<lambda>variance.
       let stdev_array = map sqrt variance in
       if \<not> list_all (\<lambda>s. 0 < s) stdev_array then Inl AssertionError
       else ebind (explicit_variance X V) (\<lambda>d.
         if \<not> allclose (map (\<lambda>s. s ^ 2) stdev_array) d then Inl AssertionError
         else Inr stdev_array))"

text \<open>The partial residuals of \<^verbatim>\<open>partial_effect\<close>: an array, or a tuple of one array.\<close>

datatype presid = Plain "xreal list" | Tuple1 "xreal list"

record bunch =
  b_x :: "matrix option"
  b_y :: "xreal list"
  b_y_low :: "xreal list"
  b_y_high :: "xreal list"
  b_x_obs :: ndarr
  b_y_partial_residuals :: presid
  b_meshgrid :: "ndarray list option"

text \<open>Lines 142 to 181, once the grid has been transformed to \<open>X\<close>.\<close>

definition pe_result ::
  "gam \<Rightarrow> gam_term \<Rightarrow> xreal \<Rightarrow> bool \<Rightarrow> ndarr \<Rightarrow> matrix \<Rightarrow> matrix option
     \<Rightarrow> ndarray list option \<Rightarrow> matrix \<Rightarrow> error + bunch" where
  "pe_result g t standard_deviations linear_scale data X_original_transformed X_smooth meshgrid X =
     ebind (matvec X (term_coef t)) (\<lambda>linear_predictions.
     ebind (ix_sub (covariance g) (coef_idx t) (coef_idx t)) (\<lambda>V.
     ebind (stdev_checked X V) (\<lambda>stdev_array.
     ebind (matvec (model_matrix g) (gam_coef g)) (\<lambda>eta.
     ebind (vzip xsub (map Fin (gam_y g)) (map (\<lambda>v. inverse_link (gam_link g) (Fin v)) eta))
       (\<lambda>residuals.
     let predictions = map Fin linear_predictions;
         half = map (\<lambda>s. xmul standard_deviations (Fin s)) stdev_array
     in
     ebind (vzip xsub predictions half) (\<lambda>y_low.
     ebind (vzip xadd predictions half) (\<lambda>y_high.
     ebind (matvec X_original_transformed (term_coef t)) (\<lambda>contribution.
     ebind (vzip xadd (map Fin contribution) residuals) (\<lambda>y_partial_residuals.
       if linear_scale then
         Inr \<lparr>b_x = X_smooth, b_y = predictions, b_y_low = y_low, b_y_high = y_high,
              b_x_obs = data, b_y_partial_residuals = Plain y_partial_residuals,
              b_meshgrid = meshgrid\<rparr>
       else
         ebind (vzip xadd (map (\<lambda>v. inverse_link (gam_link g) (Fin v)) contribution) residuals)
           (\<lambda>mapped.
         Inr \<lparr>b_x = X_smooth,
              b_y = map (inverse_link (gam_link g)) predictions,
              b_y_low = map (inverse_link (gam_link g)) y_low,
              b_y_high = map (inverse_link (gam_link g)) y_high,
              b_x_obs = data, b_y_partial_residuals = Tuple1 mapped,
              b_meshgrid = meshgrid\<rparr>))))))))))"

text \<open>
  Lines 126 to 181 on the copied term, whose state is passed along: \<^verbatim>\<open>transform\<close> and
  \<^verbatim>\<open>set_params\<close> change it.
\<close>

definition pe_logic ::
  "env \<Rightarrow> gam \<Rightarrow> gam_term \<Rightarrow> xreal \<Rightarrow> bool \<Rightarrow> (error + bunch) \<times> gam_term" where
  "pe_logic E g t standard_deviations linear_scale =
     (case get_column E t (gam_X g) of Inl e \<Rightarrow> (Inl e, t) | Inr data \<Rightarrow>
      case transform E t (Some (gam_X g)) of Inl e \<Rightarrow> (Inl e, t)
      | Inr (X_original_transformed, t1) \<Rightarrow>
      case smooth_grid E g t1 100 of Inl e \<Rightarrow> (Inl e, t1)
      | Inr (X_smooth, meshgrid, t2) \<Rightarrow>
      case transform E t2 X_smooth of Inl e \<Rightarrow> (Inl e, t2)
      | Inr (X, t3) \<Rightarrow>
        (pe_result g t3 standard_deviations linear_scale data X_original_transformed
           X_smooth meshgrid X, t3))"

text \<open>
  \<^verbatim>\<open>partial_effect(gam, term, standard_deviations, edges, linear_scale)\<close>: the validation
  of lines 103 to 121, then the logic on a deep copy. The result comes with the store as the
  call leaves it.
\<close>

definition partial_effect ::
  "env \<Rightarrow> heap \<Rightarrow> gam pyobj \<Rightarrow> nat pyobj \<Rightarrow> py_value \<Rightarrow> 'e \<Rightarrow> bool \<Rightarrow> (error + bunch) \<times> heap" where
  "partial_effect E h gam term standard_deviations edges linear_scale =
     (case gam of
        Other s \<Rightarrow> (Inl (TypeError (''Parameter `gam` must be instance of GAM, found: '' @ s)), h)
      | Obj g \<Rightarrow>
     (case term of
        Other s \<Rightarrow>
          (Inl (TypeError (''Parameter `term` must be instance of Spline or Linear, found: '' @ s)), h)
      | Obj a \<Rightarrow>
        if \<not> (kind (h ! a) = Spline \<or> kind (h ! a) = Linear) then
          (Inl (TypeError ''Parameter `term` must be instance of Spline or Linear''), h)
        else if \<not> gam_fitted g then (Inl NotFittedError, h)
        else if \<not> fitted (h ! a) then (Inl NotFittedError, h)
        else if \<not> term_in E h a (terms g) then (Inl (ValueError ''Term not found in model''), h)
        else
          (case check_scalar standard_deviations of
             Inl e \<Rightarrow> (Inl e, h)
           | Inr sd \<Rightarrow>
               let (h1, c) = deepcopy h a;
                   (result, t') = pe_logic E g (h1 ! c) sd linear_scale
               in (result, h1[c := t']))))"


subsection \<open>The display built from an estimator\<close>

text \<open>
  The argument \<^verbatim>\<open>transformation\<close>: \<open>True\<close> selects the inverse link, \<open>None\<close> and
  \<open>False\<close> the identity, anything else is called as it is.
\<close>

datatype transformation = TTrue | TFalse | TNone | TCallable "xreal list \<Rightarrow> xreal list"

definition select_transformation :: "gam \<Rightarrow> transformation \<Rightarrow> xreal list \<Rightarrow> xreal list" where
  "select_transformation g tr =
     (case tr of
        TTrue \<Rightarrow> map (inverse_link (gam_link g))
      | TFalse \<Rightarrow> (\<lambda>x. x)
      | TNone \<Rightarrow> (\<lambda>x. x)
      | TCallable f \<Rightarrow> f)"

text \<open>\<^verbatim>\<open>np.sqrt(np.finfo(float).eps)\<close>: the machine epsilon is \<open>2\<^sup>-\<^sup>5\<^sup>2\<close>, its root \<open>2\<^sup>-\<^sup>2\<^sup>6\<close>.\<close>

definition epsilon :: real where
  "epsilon = 1 / 2 ^ 26"

text \<open>\<^verbatim>\<open>np.minimum(np.maximum(y, low + epsilon), high - epsilon)\<close>.\<close>

definition y_noboundary :: "link \<Rightarrow> vec \<Rightarrow> xreal list" where
  "y_noboundary l y =
     (let (low, high) = domain l
      in map (\<lambda>v. xmin (xmax (Fin v) (xadd low (Fin epsilon))) (xsub high (Fin epsilon))) y)"

text \<open>
  \<^verbatim>\<open>np.squeeze\<close> of a two-dimensional array: axes of length one are dropped. An array
  without rows is taken to have one column, as the grids made by \<^verbatim>\<open>reshape(-1, 1)\<close> have.
\<close>

definition np_squeeze :: "matrix \<Rightarrow> ndarr" where
  "np_squeeze m =
     (case m of
        [r] \<Rightarrow> (case r of [v] \<Rightarrow> A0 v | _ \<Rightarrow> A1 r)
      | _ \<Rightarrow> if list_all (\<lambda>r. length r = 1) m then A1 (concat m) else A2 m)"

text \<open>The attributes of a \<^verbatim>\<open>PartialEffectDisplay\<close>; drawing it is not modelled.\<close>

record display =
  d_x :: "ndarr option"
  d_y :: "xreal list"
  d_y_low :: "xreal list"
  d_y_high :: "xreal list"
  d_x_obs :: ndarr
  d_y_partial_residuals :: "xreal list option"

text \<open>Lines 303 to 345, once the grid has been transformed.\<close>

definition fe_result ::
  "env \<Rightarrow> gam \<Rightarrow> gam_term \<Rightarrow> matrix \<Rightarrow> vec \<Rightarrow> xreal \<Rightarrow> transformation \<Rightarrow> bool \<Rightarrow> matrix
     \<Rightarrow> ndarr \<Rightarrow> matrix option \<Rightarrow> matrix \<Rightarrow> error + display" where
  "fe_result E g t X y standard_deviations tr residuals X_transformed x_obs X_smooth
     X_smooth_transformed =
     ebind (matvec X_smooth_transformed (term_coef t)) (\<lambda>linear_predictions.
     ebind (ix_sub (covariance g) (coef_idx t) (coef_idx t)) (\<lambda>V.
     ebind (stdev_checked X_smooth_transformed V) (\<lambda>stdev_array.
     let transformation = select_transformation g tr;
         y_nb = y_noboundary (gam_link g) y
     in
     ebind (predict E g X) (\<lambda>mu.
     ebind (vzip xsub (map (link (gam_link g)) y_nb) (map (link (gam_link g)) mu))
       (\<lambda>res.
     ebind (matvec X_transformed (term_coef t)) (\<lambda>contribution.
     ebind (vzip xadd (map Fin contribution) res) (\<lambda>s.
     let y_partial_residuals = transformation s;
         predictions = map Fin linear_predictions;
         half = map (\<lambda>s. xmul standard_deviations (Fin s)) stdev_array
     in
     ebind (vzip xsub predictions half) (\<lambda>low.
     ebind (vzip xadd predictions half) (\<lambda>high.
       Inr \<lparr>d_x = map_option np_squeeze X_smooth,
            d_y = transformation predictions,
            d_y_low = transformation low,
            d_y_high = transformation high,
            d_x_obs = x_obs,
            d_y_partial_residuals = (if residuals then Some y_partial_residuals else None)\<rparr>
     )))))))))"

text \<open>Lines 286 to 345 on the copied term; the grid is transformed twice, as in the source.\<close>

definition fe_logic ::
  "env \<Rightarrow> gam \<Rightarrow> gam_term \<Rightarrow> matrix \<Rightarrow> vec \<Rightarrow> xreal \<Rightarrow> transformation \<Rightarrow> bool
     \<Rightarrow> (error + display) \<times> gam_term" where
  "fe_logic E g t X y standard_deviations tr residuals =
     (case transform E t (Some X) of Inl e \<Rightarrow> (Inl e, t)
      | Inr (X_transformed, t1) \<Rightarrow>
      case get_column E t1 X of Inl e \<Rightarrow> (Inl e, t1) | Inr x_obs \<Rightarrow>
      case smooth_grid E g t1 (2 ^ 8) of Inl e \<Rightarrow> (Inl e, t1)
      | Inr (X_smooth, meshgrid, t2) \<Rightarrow>
      case transform E t2 X_smooth of Inl e \<Rightarrow> (Inl e, t2)
      | Inr (X_smooth_transformed0, t3) \<Rightarrow>
      case transform E t3 X_smooth of Inl e \<Rightarrow> (Inl e, t3)
      | Inr (X_smooth_transformed, t4) \<Rightarrow>
        (fe_result E g t4 X y standard_deviations tr residuals X_transformed x_obs X_smooth
           X_smooth_transformed, t4))"

text \<open>
  \<^verbatim>\<open>PartialEffectDisplay.from_estimator\<close>: the validation of lines 263 to 281, then the
  logic on a deep copy. \<open>rug\<close>, \<open>ax\<close> and \<open>line_kwargs\<close> only reach the drawing.
\<close>

definition from_estimator ::
  "env \<Rightarrow> heap \<Rightarrow> gam pyobj \<Rightarrow> nat pyobj \<Rightarrow> matrix \<Rightarrow> vec \<Rightarrow> py_value \<Rightarrow> 'e \<Rightarrow> transformation
     \<Rightarrow> bool \<Rightarrow> (error + display) \<times> heap" where
  "from_estimator E h gam term X y standard_deviations edges tr residuals =
     (case gam of
        Other s \<Rightarrow> (Inl (TypeError (''Parameter `gam` must be instance of GAM, found: '' @ s)), h)
      | Obj g \<Rightarrow>
     (case term of
        Other s \<Rightarrow>
          (Inl (TypeError (''Parameter `term` must be instance of Term, found: '' @ s)), h)
      | Obj a \<Rightarrow>
        if \<not> gam_fitted g then (Inl NotFittedError, h)
        else if \<not> fitted (h ! a) then (Inl NotFittedError, h)
        else if \<not> term_in E h a (terms g) then (Inl (ValueError ''Term not found in model''), h)
        else
          (case check_scalar standard_deviations of
             Inl e \<Rightarrow> (Inl e, h)
           | Inr sd \<Rightarrow>
               let (h1, c) = deepcopy h a;
                   (result, t') = fe_logic E g (h1 ! c) X y sd tr residuals
               in (result, h1[c := t']))))"


subsection \<open>A model with one linear term\<close>

text \<open>
  Modelled from the spec: the methods of \<^verbatim>\<open>generalized_additive_models.terms\<close> and of
  \<^verbatim>\<open>GAM\<close>, which are not among the sources, for a model made of one Linear term. The
  transform of a Linear term is the identity on its feature column; a term of another kind is
  not part of this model and its transform is not given. \<^verbatim>\<open>_get_column\<close> extracts the
  feature column of a term, whatever its kind, the prediction is the inverse link of the
  linear predictor, and two terms are equal when their contents are.
\<close>

definition column_of :: "feature \<Rightarrow> matrix \<Rightarrow> error + vec" where
  "column_of f X =
     (case f of
        ByName s \<Rightarrow> Inl (ValueError ''the data has no column names'')
      | ByIndex i \<Rightarrow> sequence (map (\<lambda>r. ebind (py_index (length r) i) (\<lambda>j. Inr (r ! j))) X))"

definition linear_env :: env where
  "linear_env =
     \<lparr>transform = (\<lambda>t X. case X of
                      None \<Rightarrow> Inl (ValueError ''Expected 2D array, got None'')
                    | Some M \<Rightarrow> ebind (column_of (feature t) M) (\<lambda>c.
                        if kind t = Linear then Inr (reshape_col c, t)
                        else Inl (ValueError ''not a term of this model''))),
      get_column = (\<lambda>t X. ebind (column_of (feature t) X) (\<lambda>c. Inr (A1 c))),
      predict = (\<lambda>g X. ebind (matvec X (gam_coef g))
                   (\<lambda>eta. Inr (map (\<lambda>v. inverse_link (gam_link g) (Fin v)) eta))),
      term_eq = (\<lambda>s t. s = t)\<rparr>"

definition identity_link :: link where
  "identity_link = \<lparr>link = (\<lambda>v. v), inverse_link = (\<lambda>v. v), domain = (NInf, PInf)\<rparr>"

text \<open>
  One Linear term on feature 0 with coefficient 2, fitted on the feature values 0 and 10; the
  variance of the coefficient is 1.
\<close>

definition linear_term :: gam_term where
  "linear_term = Term Linear (ByIndex 0) True [2] [0] [] []"

definition linear_gam :: gam where
  "linear_gam =
     \<lparr>gam_fitted = True, terms = [0], gam_X = [[0], [10]], gam_y = [1, 19],
      model_matrix = [[0], [10]], gam_coef = [2], covariance = [[1]],
      gam_link = identity_link\<rparr>"

text \<open>
  The grid of the linear term on the training data: \<open>num\<close> points from \<open>-0.1\<close> to \<open>10.1\<close>.
\<close>

definition linear_axis :: "int \<Rightarrow> vec" where
  "linear_axis num =
     map (\<lambda>i. - (1 / 10) + real i * ((51 / 5) / real_of_int (num - 1))) [0..<nat num]"

text \<open>
  A fitted model with a Tensor of two Splines on the features 0 and 1 among its terms; it
  serves for the grid of the Tensor.
\<close>

definition tensor_term :: gam_term where
  "tensor_term =
     Term Tensor (ByIndex 0) True [1] [3] []
       [Term Spline (ByIndex 0) True [] [] [] [], Term Spline (ByIndex 1) True [] [] [] []]"

definition mixed_gam :: gam where
  "mixed_gam =
     \<lparr>gam_fitted = True, terms = [0, 1, 2], gam_X = [[0, 0], [10, 1]], gam_y = [1, 19],
      model_matrix = [[0, 1, 0, 0], [10, 0, 1, 10]], gam_coef = [2, 1, 2, 1],
      covariance = [[1, 0, 0, 0], [0, 1, 0, 0], [0, 0, 1, 0], [0, 0, 0, 1]],
      gam_link = identity_link\<rparr>"

subsection \<open>A model with a linear and a categorical term\<close>

text \<open>
  Modelled from the spec: the collaborators of a model made of one Linear term and one
  Categorical term. The transform of the Linear term is the identity on its feature column,
  that of the Categorical term the one-hot expansion of its feature column over its levels;
  a term of another kind is not part of this model. The prediction is the inverse link of the
  model matrix of the data times the coefficients.
\<close>

definition one_hot :: "vec \<Rightarrow> vec \<Rightarrow> matrix" where
  "one_hot levels c = map (\<lambda>v. map (\<lambda>l. if v = l then 1 else 0) levels) c"

definition two_term_env :: env where
  "two_term_env =
     \<lparr>transform = (\<lambda>t X. case X of
                      None \<Rightarrow> Inl (ValueError ''Expected 2D array, got None'')
                    | Some M \<Rightarrow> ebind (column_of (feature t) M) (\<lambda>c.
                        if kind t = Linear then Inr (reshape_col c, t)
                        else if kind t = Categorical then Inr (one_hot (categories t) c, t)
                        else Inl (ValueError ''not a term of this model''))),
      get_column = (\<lambda>t X. ebind (column_of (feature t) X) (\<lambda>c. Inr (A1 c))),
      predict = (\<lambda>g X.
                   ebind (column_of (ByIndex 1) X) (\<lambda>c1.
                   ebind (column_of (ByIndex 2) X) (\<lambda>c2.
                   ebind (matvec (map2 (#) c1 (one_hot [0, 1] c2)) (gam_coef g)) (\<lambda>eta.
                     Inr (map (\<lambda>v. inverse_link (gam_link g) (Fin v)) eta))))),
      term_eq = (\<lambda>s t. s = t)\<rparr>"

text \<open>
  The data have three columns; the Linear term reads feature 1, with coefficient 2, and the
  Categorical term reads feature 2, with the levels 0 and 1 and the coefficients 1 and 2.
  The covariance of the three coefficients is the identity.
\<close>

definition slope_term :: gam_term where
  "slope_term = Term Linear (ByIndex 1) True [2] [0] [] []"

definition level_term :: gam_term where
  "level_term = Term Categorical (ByIndex 2) True [1, 2] [1, 2] [0, 1] []"

definition two_term_heap :: heap where
  "two_term_heap = [slope_term, level_term]"

definition two_term_gam :: gam where
  "two_term_gam =
     \<lparr>gam_fitted = True, terms = [0, 1], gam_X = [[7, 0, 0], [3, 10, 1]], gam_y = [1, 19],
      model_matrix = [[0, 1, 0], [10, 0, 1]], gam_coef = [2, 1, 2],
      covariance = [[1, 0, 0], [0, 1, 0], [0, 0, 1]],
      gam_link = identity_link\<rparr>"

section \<open>Properties\<close>

subsection \<open>Exceptions and shapes\<close>

lemma ebind_Inr [simp]: "ebind (Inr x) f = f x"
  by (simp add: ebind_def)

lemma ebind_Inl [simp]: "ebind (Inl e) f = Inl e"
  by (simp add: ebind_def)

lemma ebind_eq_Inr: "ebind m f = Inr y \<longleftrightarrow> (\<exists>x. m = Inr x \<and> f x = Inr y)"
  by (cases m) auto

lemma sequence_Inr_length: "sequence ms = Inr xs \<Longrightarrow> length xs = length ms"
  by (induction ms arbitrary: xs) (auto simp: ebind_eq_Inr)

lemma ix_sub_shape:
  assumes "ix_sub A rs cs = Inr V"
  shows "is_matrix (length rs) (length cs) V"
proof -
  from assms obtain rs' cs' where r: "sequence (map (py_index (length A)) rs) = Inr rs'"
    and c: "sequence (map (py_index (ncols A)) cs) = Inr cs'"
    and V: "V = map (\<lambda>i. map (\<lambda>j. A ! i ! j) cs') rs'"
    by (auto simp: ix_sub_def ebind_eq_Inr)
  from sequence_Inr_length[OF r] sequence_Inr_length[OF c] V show ?thesis
    by (simp add: is_matrix_def list_all_iff)
qed

lemma length_columns_square: "is_matrix k k B \<Longrightarrow> length (columns B) = k"
  by (cases B) (auto simp: columns_def is_matrix_def)

lemma matmul_square:
  assumes "is_matrix n k A" "is_matrix k k B"
  shows "matmul A B = Inr (map (\<lambda>r. map (dot r) (columns B)) A)"
    and "is_matrix n k (map (\<lambda>r. map (dot r) (columns B)) A)"
  using assms length_columns_square[of k B]
  by (auto simp: matmul_def is_matrix_def list_all_iff)

lemma diag_nth:
  assumes "is_matrix n n A"
  shows "diag A = map (\<lambda>i. A ! i ! i) [0..<n]"
proof -
  have "filter (\<lambda>(i, r). i < length r) (enumerate 0 A) = enumerate 0 A"
    using assms by (auto simp: is_matrix_def list_all_iff filter_id_conv in_set_enumerate_eq)
  then have "diag A = map (\<lambda>(i, r). r ! i) (enumerate 0 A)"
    by (simp add: diag_def)
  also have "\<dots> = map (\<lambda>i. A ! i ! i) [0..<n]"
    using assms by (auto simp: is_matrix_def enumerate_eq_zip intro!: nth_equalityI)
  finally show ?thesis .
qed

text \<open>Both ways of taking the quadratic form of every row give the row-wise dot products.\<close>

lemma variance_rows:
  assumes "is_matrix n k XV" "is_matrix n k X"
  shows "ebind (hadamard XV X) (\<lambda>H. Inr (sum_axis1 H)) = Inr (map2 dot XV X)"
    and "ebind (matmul_T XV X) (\<lambda>P. Inr (diag P)) = Inr (map2 dot XV X)"
proof -
  have len: "length XV = n" "length X = n"
    and rows: "\<And>r. r \<in> set XV \<Longrightarrow> length r = k" "\<And>r. r \<in> set X \<Longrightarrow> length r = k"
    using assms by (auto simp: is_matrix_def list_all_iff)
  have h: "hadamard XV X = Inr (map2 (map2 (*)) XV X)"
    using len rows by (auto simp: hadamard_def list_all2_conv_all_nth)
  have "sum_axis1 (map2 (map2 (*)) XV X) = map2 dot XV X"
    by (auto simp: sum_axis1_def dot_def intro!: nth_equalityI)
  with h show "ebind (hadamard XV X) (\<lambda>H. Inr (sum_axis1 H)) = Inr (map2 dot XV X)"
    by simp
  have m: "matmul_T XV X = Inr (map (\<lambda>r. map (dot r) X) XV)"
    using rows by (auto simp: matmul_T_def list_all_iff)
  have "is_matrix n n (map (\<lambda>r. map (dot r) X) XV)"
    using len by (simp add: is_matrix_def list_all_iff)
  from diag_nth[OF this] have "diag (map (\<lambda>r. map (dot r) X) XV) = map2 dot XV X"
    using len by (auto intro!: nth_equalityI)
  with m show "ebind (matmul_T XV X) (\<lambda>P. Inr (diag P)) = Inr (map2 dot XV X)"
    by simp
qed

lemma variances_square:
  assumes "is_matrix n k X" "is_matrix k k V"
  shows "fast_variance X V = Inr (map2 dot (map (\<lambda>r. map (dot r) (columns V)) X) X)"
    and "explicit_variance X V = Inr (map2 dot (map (\<lambda>r. map (dot r) (columns V)) X) X)"
proof -
  let ?XV = "map (\<lambda>r. map (dot r) (columns V)) X"
  have mm: "matmul X V = Inr ?XV" and sh: "is_matrix n k ?XV"
    using matmul_square[OF assms] by simp_all
  show "fast_variance X V = Inr (map2 dot ?XV X)"
    unfolding fast_variance_def mm using variance_rows(1)[OF sh assms(1)] by simp
  show "explicit_variance X V = Inr (map2 dot ?XV X)"
    unfolding explicit_variance_def mm using variance_rows(2)[OF sh assms(1)] by simp
qed

subsection \<open>The fast variance is the diagonal of the full product\<close>

text \<open>
  Claim C1. For a design matrix \<open>X\<close> of shape \<open>(n, k)\<close> and the principal sub-matrix
  \<open>V = covariance[np.ix_(coef_idx_, coef_idx_)]\<close> of the \<open>k\<close> coefficients of the term, the
  row-wise sum of \<open>(X @ V) * X\<close> and the diagonal of \<open>X @ V @ X.T\<close> are both defined, have one
  entry per row and agree in every row: exactly, hence within the relative tolerance
  \<open>1e-8\<close>. Floating point rounding is outside the model.
\<close>

theorem fast_variance_eq_explicit:
  assumes "is_matrix n k X" and "ix_sub cov idx idx = Inr V" and "length idx = k"
  shows "\<exists>fast explicit. fast_variance X V = Inr fast \<and> explicit_variance X V = Inr explicit
           \<and> length fast = n \<and> length explicit = n
           \<and> (\<forall>i<n. fast ! i = explicit ! i
                    \<and> \<bar>fast ! i - explicit ! i\<bar> \<le> (1 / 10 ^ 8) * \<bar>explicit ! i\<bar>)"
proof -
  have V: "is_matrix k k V"
    using ix_sub_shape[OF assms(2)] assms(3) by simp
  let ?v = "map2 dot (map (\<lambda>r. map (dot r) (columns V)) X) X"
  have "length ?v = n"
    using assms(1) by (simp add: is_matrix_def)
  with variances_square[OF assms(1) V] show ?thesis
    by simp
qed

theorem fast_variance_eq_explicit_witness:
  "is_matrix 2 2 [[1, 2], [3, 4]]
   \<and> ix_sub [[2, 1, 0], [1, 3, 0], [0, 0, 5]] [0, 1] [0, 1] = Inr [[2, 1], [1, 3]]
   \<and> length [0, 1 :: int] = 2
   \<and> (\<exists>fast explicit. fast_variance [[1, 2], [3, 4]] [[2, 1], [1, 3]] = Inr fast
         \<and> explicit_variance [[1, 2], [3, 4]] [[2, 1], [1, 3]] = Inr explicit
         \<and> length fast = 2 \<and> length explicit = 2
         \<and> (\<forall>i<2. fast ! i = explicit ! i
                  \<and> \<bar>fast ! i - explicit ! i\<bar> \<le> (1 / 10 ^ 8) * \<bar>explicit ! i\<bar>))"
proof -
  have h1: "is_matrix 2 2 [[1, 2], [3, 4]]"
    by (simp add: is_matrix_def)
  have h2: "ix_sub [[2, 1, 0], [1, 3, 0], [0, 0, 5]] [0, 1] [0, 1] = Inr [[2, 1], [1, 3]]"
    by (simp add: ix_sub_def py_index_def ncols_def)
  have h3: "length [0, 1 :: int] = 2"
    by simp
  from fast_variance_eq_explicit[OF h1 h2 h3] h1 h2 h3 show ?thesis
    by blast
qed


subsection \<open>The grid of a Linear or Spline term\<close>

lemma linspace_closed:
  assumes "0 \<le> num"
  shows "linspace lo hi num =
           Inr (map (\<lambda>i. lo + real i * ((hi - lo) / real_of_int (num - 1))) [0..<nat num])"
proof (cases "num = 1")
  case True
  then show ?thesis by (simp add: linspace_def)
next
  case False
  have "(if i = nat num - 1 then hi else lo + real i * ((hi - lo) / real_of_int (num - 1)))
        = lo + real i * ((hi - lo) / real_of_int (num - 1))" if "i < nat num" for i
  proof (cases "i = nat num - 1")
    case True
    with that False assms have "real i = real_of_int (num - 1)" and "real_of_int (num - 1) \<noteq> 0"
      by auto
    with True show ?thesis by simp
  next
    case False
    then show ?thesis by simp
  qed
  with False assms show ?thesis
    by (simp add: linspace_def)
qed

lemma axis_grid:
  assumes "gam_fitted g" "fitted t" "kind t = Linear \<or> kind t = Spline"
    and "get_column E t X = Inr col" "flat col \<noteq> []" "0 \<le> num"
  shows "generate_X_grid E (Obj g) (Obj t) X extrapolation num =
           Inr (Grid (reshape_col (map (\<lambda>i.
             (Min (set (flat col)) - (Max (set (flat col)) - Min (set (flat col))) * extrapolation)
             + real i * (((Max (set (flat col)) + (Max (set (flat col)) - Min (set (flat col))) * extrapolation)
                          - (Min (set (flat col)) - (Max (set (flat col)) - Min (set (flat col))) * extrapolation))
                         / real_of_int (num - 1))) [0..<nat num])))"
proof -
  obtain k f fit c ci cats subs where t: "t = Term k f fit c ci cats subs"
    by (cases t)
  from assms(5) have mn: "np_min col = Inr (Min (set (flat col)))"
    and mx: "np_max col = Inr (Max (set (flat col)))"
    by (auto simp: np_min_def np_max_def split: list.splits)
  from assms(1-4) t mn mx show ?thesis
    by (auto simp: linspace_closed[OF assms(6)] Let_def mult.commute)
qed

text \<open>
  Claim C3. For a fitted model, a fitted Linear or Spline term whose feature column is not
  empty and \<open>num \<ge> 1\<close>, \<^verbatim>\<open>generate_X_grid\<close> returns exactly \<open>num\<close> one-element rows,
  the \<open>i\<close>-th holding \<open>lo + i * (hi - lo) / (num - 1)\<close>, where \<open>lo = min - offset\<close>,
  \<open>hi = max + offset\<close> and \<open>offset = (max - min) * extrapolation\<close>: evenly spaced, from
  \<open>lo\<close> to \<open>hi\<close>. The witness is the scenario of the specification: the feature range
  \<open>[0, 10]\<close> with \<open>extrapolation = 0.1\<close> and \<open>num = 5\<close> gives \<open>[-1, 2, 5, 8, 11]\<close>.
\<close>

theorem linear_spline_grid:
  assumes "gam_fitted g" "fitted t" "kind t = Linear \<or> kind t = Spline"
    and "get_column E t X = Inr col" "flat col \<noteq> []" "1 \<le> num"
    and "lo = Min (set (flat col)) - (Max (set (flat col)) - Min (set (flat col))) * extrapolation"
    and "hi = Max (set (flat col)) + (Max (set (flat col)) - Min (set (flat col))) * extrapolation"
  shows "generate_X_grid E (Obj g) (Obj t) X extrapolation num =
           Inr (Grid (map (\<lambda>i. [lo + real i * ((hi - lo) / real_of_int (num - 1))]) [0..<nat num]))
         \<and> length (map (\<lambda>i. [lo + real i * ((hi - lo) / real_of_int (num - 1))]) [0..<nat num]) = nat num
         \<and> (2 \<le> num \<longrightarrow> lo + real (nat num - 1) * ((hi - lo) / real_of_int (num - 1)) = hi)"
proof -
  from assms(6) have "0 \<le> num" by simp
  from axis_grid[OF assms(1-5) this, of extrapolation] assms(7,8)
  have "generate_X_grid E (Obj g) (Obj t) X extrapolation num =
           Inr (Grid (map (\<lambda>i. [lo + real i * ((hi - lo) / real_of_int (num - 1))]) [0..<nat num]))"
    by (simp add: reshape_col_def comp_def)
  moreover have "lo + real (nat num - 1) * ((hi - lo) / real_of_int (num - 1)) = hi" if "2 \<le> num"
  proof -
    from that have "real (nat num - 1) = real_of_int (num - 1)" "real_of_int (num - 1) \<noteq> 0"
      by auto
    then show ?thesis by simp
  qed
  ultimately show ?thesis by simp
qed

theorem linear_spline_grid_witness:
  "gam_fitted linear_gam \<and> fitted linear_term \<and> (kind linear_term = Linear \<or> kind linear_term = Spline)
   \<and> get_column linear_env linear_term [[0], [10]] = Inr (A1 [0, 10])
   \<and> flat (A1 [0, 10]) \<noteq> [] \<and> (1::int) \<le> 5
   \<and> generate_X_grid linear_env (Obj linear_gam) (Obj linear_term) [[0], [10]] (1 / 10) 5
       = Inr (Grid [[-1], [2], [5], [8], [11]])"
proof -
  have h1: "gam_fitted linear_gam" by (simp add: linear_gam_def)
  have h2: "fitted linear_term" by (simp add: linear_term_def)
  have h3: "kind linear_term = Linear \<or> kind linear_term = Spline" by (simp add: linear_term_def)
  have h4: "get_column linear_env linear_term [[0], [10]] = Inr (A1 [0, 10])"
    by (simp add: linear_env_def linear_term_def column_of_def py_index_def)
  have h5: "flat (A1 [0, 10]) \<noteq> []" by (simp add: flat_def)
  have h6: "(1::int) \<le> 5" by simp
  have lo: "(-1::real) = Min (set (flat (A1 [0, 10]))) - (Max (set (flat (A1 [0, 10]))) - Min (set (flat (A1 [0, 10])))) * (1 / 10)"
    by (simp add: flat_def)
  have hi: "(11::real) = Max (set (flat (A1 [0, 10]))) + (Max (set (flat (A1 [0, 10]))) - Min (set (flat (A1 [0, 10])))) * (1 / 10)"
    by (simp add: flat_def)
  have "[0..<nat 5] = [0, 1, 2, 3, 4]" by (simp add: upt_rec)
  with linear_spline_grid[OF h1 h2 h3 h4 h5 h6 lo hi] h1 h2 h3 h4 h5 h6 show ?thesis
    by simp
qed


subsection \<open>The grid of a Tensor term\<close>

lemma nth_concat_blocks:
  assumes "\<forall>x\<in>set xs. length (f x) = m" "r < length xs * m"
  shows "concat (map f xs) ! r = f (xs ! (r div m)) ! (r mod m)"
  using assms
proof (induction xs arbitrary: r)
  case Nil
  then show ?case by simp
next
  case (Cons x xs)
  show ?case
  proof (cases "r < m")
    case True
    with Cons.prems show ?thesis by (simp add: nth_append)
  next
    case False
    then have m: "0 < m" "m \<le> r" using Cons.prems by (auto intro: Nat.gr0I)
    with Cons.prems have "r - m < length xs * m" by auto
    with Cons have ih: "concat (map f xs) ! (r - m) = f (xs ! ((r - m) div m)) ! ((r - m) mod m)"
      by simp
    from m have "r div m = Suc ((r - m) div m)" "(r - m) mod m = r mod m"
      by (simp_all add: le_div_geq le_mod_geq[symmetric])
    with False Cons.prems ih show ?thesis by (simp add: nth_append)
  qed
qed

lemma length_concat_blocks:
  assumes "\<forall>x\<in>set xs. length (f x) = m"
  shows "length (concat (map f xs)) = length xs * m"
  using assms by (induction xs) auto

lemma length_product_lists_pow:
  "\<forall>a\<in>set axes. length a = n \<Longrightarrow> length (product_lists axes) = n ^ length axes"
  by (induction axes) (auto simp: length_concat_blocks)

lemma div_of_mod_mult:
  fixes r b c :: nat
  assumes "b \<noteq> 0"
  shows "(r mod (b * c)) div b = (r div b) mod c"
proof -
  have "r mod (b * c) = b * (r div b mod c) + r mod b"
    by (rule mod_mult2_eq)
  then have "(r mod (b * c)) div b = (b * (r div b mod c) + r mod b) div b"
    by (simp only:)
  also have "\<dots> = (r div b) mod c"
    using assms by simp
  finally show ?thesis .
qed

lemma digit_of_remainder:
  fixes r n :: nat
  assumes "e < k"
  shows "(r mod n ^ k) div n ^ e mod n = r div n ^ e mod n"
proof -
  from assms obtain d where k: "k = e + Suc d"
    by (metis add_Suc_right less_imp_Suc_add)
  define b where "b = n ^ e"
  define c where "c = n ^ Suc d"
  have nk: "n ^ k = b * c"
    by (simp only: k power_add b_def c_def)
  have "(r mod (b * c)) div b = (r div b) mod c"
  proof (cases "b = 0")
    case True
    then show ?thesis by simp
  next
    case False
    then show ?thesis by (rule div_of_mod_mult)
  qed
  moreover have "n dvd c"
    unfolding c_def by simp
  then have "(r div b) mod c mod n = r div b mod n"
    by (rule mod_mod_cancel)
  ultimately have "(r mod (b * c)) div b mod n = r div b mod n"
    by (simp only:)
  then show ?thesis
    by (simp only: nk b_def)
qed

lemma product_lists_nth:
  assumes "\<forall>a\<in>set axes. length a = n" "r < n ^ length axes" "j < length axes"
  shows "product_lists axes ! r ! j = axes ! j ! (r div n ^ (length axes - 1 - j) mod n)"
  using assms
proof (induction axes arbitrary: r j)
  case Nil
  then show ?case by simp
next
  case (Cons a as)
  let ?m = "n ^ length as"
  have len: "length (product_lists as) = ?m"
    using Cons.prems(1) by (simp add: length_product_lists_pow)
  have la: "length a = n" using Cons.prems(1) by simp
  from Cons.prems(2) have r: "r < length a * ?m" by (simp add: la)
  have m0: "0 < ?m"
  proof (rule ccontr)
    assume "\<not> 0 < ?m"
    then have "length a * ?m = 0" by simp
    with r show False by simp
  qed
  have row: "product_lists (a # as) ! r = a ! (r div ?m) # product_lists as ! (r mod ?m)"
    using nth_concat_blocks[of a "\<lambda>v. map ((#) v) (product_lists as)" ?m r] r len m0
    by simp
  show ?case
  proof (cases j)
    case 0
    from r m0 have "r div ?m < n"
      by (simp add: la less_mult_imp_div_less)
    with 0 row show ?thesis by simp
  next
    case (Suc j')
    with Cons.prems(3) have j': "j' < length as" by simp
    from m0 have "r mod ?m < ?m" by simp
    with Cons.IH[of "r mod ?m" j'] Cons.prems(1) j'
    have "product_lists as ! (r mod ?m) ! j'
            = as ! j' ! ((r mod ?m) div n ^ (length as - 1 - j') mod n)"
      by simp
    also have "(r mod ?m) div n ^ (length as - 1 - j') mod n = r div n ^ (length as - 1 - j') mod n"
      using j' by (intro digit_of_remainder) simp
    finally show ?thesis using Suc row by simp
  qed
qed

lemma cartesian_product_lists: "cartesian axes = product_lists axes"
  by (induction axes) simp_all


lemma meshgrid_ij_props:
  assumes "\<forall>a\<in>set axes. length a = n" "j < length axes"
  shows "nd_shape (meshgrid_ij axes ! j) = replicate (length axes) n"
    and "length (nd_data (meshgrid_ij axes ! j)) = n ^ length axes"
    and "r < n ^ length axes \<Longrightarrow>
           nd_data (meshgrid_ij axes ! j) ! r = axes ! j ! (r div n ^ (length axes - 1 - j) mod n)"
proof -
  let ?I = "map (\<lambda>a. [0..<length a]) axes"
  have I: "\<forall>a\<in>set ?I. length a = n" "length ?I = length axes"
    using assms(1) by auto
  have "map length axes = map (\<lambda>a. n) axes"
    using assms(1) by (intro map_cong) simp_all
  then have "map length axes = replicate (length axes) n"
    by (simp only: map_replicate_const)
  with assms(2) show "nd_shape (meshgrid_ij axes ! j) = replicate (length axes) n"
    by (simp add: meshgrid_ij_def)
  from assms(2) length_product_lists_pow[OF I(1)] I(2)
  show "length (nd_data (meshgrid_ij axes ! j)) = n ^ length axes"
    by (simp add: meshgrid_ij_def)
  show "nd_data (meshgrid_ij axes ! j) ! r = axes ! j ! (r div n ^ (length axes - 1 - j) mod n)"
    if r: "r < n ^ length axes"
  proof -
    from r assms(2) have "0 < n" by (cases "n = 0") (auto simp: power_0_left split: if_splits)
    then have d: "r div n ^ (length axes - 1 - j) mod n < n" by simp
    have "product_lists ?I ! r ! j = ?I ! j ! (r div n ^ (length axes - 1 - j) mod n)"
      using product_lists_nth[OF I(1), of r j] r assms(2) I(2) by simp
    also have "\<dots> = r div n ^ (length axes - 1 - j) mod n"
      using assms d by simp
    finally have idx: "product_lists ?I ! r ! j = r div n ^ (length axes - 1 - j) mod n" .
    have "nd_data (meshgrid_ij axes ! j)
            = map (\<lambda>idx. axes ! j ! (idx ! j)) (product_lists ?I)"
      using assms(2) by (simp add: meshgrid_ij_def)
    moreover have "r < length (product_lists ?I)"
      using r length_product_lists_pow[OF I(1)] I(2) by simp
    ultimately have "nd_data (meshgrid_ij axes ! j) ! r = axes ! j ! (product_lists ?I ! r ! j)"
      by (simp only: nth_map)
    with idx show ?thesis by (simp only:)
  qed
qed



lemma ravel_reshape_col: "ravel (Grid (reshape_col l)) = Inr l"
  by (induction l) (simp_all add: ravel_def reshape_col_def)

lemma tensor_axes:
  assumes "\<forall>s\<in>set subs. \<exists>l. G s = Inr (Grid (reshape_col l)) \<and> length l = n"
  shows "\<exists>axes. sequence (map (\<lambda>spline. ebind (G spline) ravel) subs) = Inr axes
           \<and> length axes = length subs
           \<and> (\<forall>j<length subs. G (subs ! j) = Inr (Grid (reshape_col (axes ! j)))
                  \<and> length (axes ! j) = n)"
  using assms
proof (induction subs)
  case Nil
  then show ?case by simp
next
  case (Cons s subs)
  then obtain l where l: "G s = Inr (Grid (reshape_col l))" "length l = n"
    by auto
  from Cons obtain axes where a: "sequence (map (\<lambda>spline. ebind (G spline) ravel) subs) = Inr axes"
    "length axes = length subs"
    "\<forall>j<length subs. G (subs ! j) = Inr (Grid (reshape_col (axes ! j))) \<and> length (axes ! j) = n"
    by auto
  have "sequence (map (\<lambda>spline. ebind (G spline) ravel) (s # subs)) = Inr (l # axes)"
    using l a by (simp add: ravel_reshape_col)
  moreover have "\<forall>j<length (s # subs). G ((s # subs) ! j) = Inr (Grid (reshape_col ((l # axes) ! j)))
                  \<and> length ((l # axes) ! j) = n"
    using l a(3) by (auto simp: nth_Cons split: nat.splits)
  ultimately show ?case using a(2) by auto
qed

text \<open>
  Claim C7. For a fitted Tensor term with \<open>k\<close> fitted Linear or Spline sub-terms and \<open>num\<close>
  grid points, \<^verbatim>\<open>generate_X_grid\<close> returns a cartesian grid and a meshgrid built from the
  same axes, the \<open>j\<close>-th axis being the grid of the \<open>j\<close>-th sub-term, of length \<open>num\<close>.
  The cartesian grid has \<open>num ^ k\<close> rows; row \<open>r\<close> holds in column \<open>j\<close> the axis value
  whose index is the \<open>j\<close>-th digit of \<open>r\<close> written in base \<open>num\<close> with \<open>k\<close> digits,
  which is the lexicographic order with the last axis varying fastest. The meshgrid has \<open>k\<close>
  arrays, each of shape \<open>(num, ..., num)\<close> with \<open>k\<close> axes, indexed the same way.
\<close>

theorem tensor_grid:
  assumes "gam_fitted g" and "kind t = Tensor" and "fitted t"
    and "\<forall>s\<in>set (splines t). fitted s \<and> (kind s = Linear \<or> kind s = Spline)
            \<and> (\<exists>col. get_column E s X = Inr col \<and> flat col \<noteq> [])"
    and "0 \<le> num" and "k = length (splines t)" and "n = nat num"
  shows "\<exists>axes. generate_X_grid E (Obj g) (Obj t) X extrapolation num
                  = Inr (TensorGrid (cartesian axes) (meshgrid_ij axes))
           \<and> length axes = k
           \<and> (\<forall>j<k. generate_X_grid E (Obj g) (Obj (splines t ! j)) X extrapolation num
                        = Inr (Grid (reshape_col (axes ! j)))
                     \<and> length (axes ! j) = n)
           \<and> length (cartesian axes) = n ^ k
           \<and> (\<forall>r<n ^ k. \<forall>j<k. cartesian axes ! r ! j = axes ! j ! (r div n ^ (k - 1 - j) mod n))
           \<and> length (meshgrid_ij axes) = k
           \<and> (\<forall>j<k. nd_shape (meshgrid_ij axes ! j) = replicate k n
                     \<and> length (nd_data (meshgrid_ij axes ! j)) = n ^ k
                     \<and> (\<forall>r<n ^ k. nd_data (meshgrid_ij axes ! j) ! r
                                     = axes ! j ! (r div n ^ (k - 1 - j) mod n)))"
proof -
  obtain kd f fit c ci cats subs where t: "t = Term kd f fit c ci cats subs"
    by (cases t)
  let ?G = "\<lambda>s. generate_X_grid E (Obj g) (Obj s) X extrapolation num"
  have "\<forall>s\<in>set subs. \<exists>l. ?G s = Inr (Grid (reshape_col l)) \<and> length l = n"
  proof
    fix s assume "s \<in> set subs"
    with assms(4) t obtain col where s: "fitted s" "kind s = Linear \<or> kind s = Spline"
      "get_column E s X = Inr col" "flat col \<noteq> []"
      by auto
    from axis_grid[OF assms(1) s assms(5), of extrapolation] assms(7)
    show "\<exists>l. ?G s = Inr (Grid (reshape_col l)) \<and> length l = n"
      by auto
  qed
  from tensor_axes[of subs ?G n, OF this] obtain axes where
    a: "sequence (map (\<lambda>spline. ebind (?G spline) ravel) subs) = Inr axes"
      "length axes = length subs"
      "\<forall>j<length subs. ?G (subs ! j) = Inr (Grid (reshape_col (axes ! j))) \<and> length (axes ! j) = n"
    by blast
  have len: "\<forall>a\<in>set axes. length a = n"
    using a(2,3) by (auto simp: in_set_conv_nth)
  have k: "length axes = k" using a(2) assms(6) t by simp
  have gen: "generate_X_grid E (Obj g) (Obj t) X extrapolation num
               = Inr (TensorGrid (cartesian axes) (meshgrid_ij axes))"
    using assms(1-3) t a(1) by simp
  have c1: "length (cartesian axes) = n ^ k"
    using length_product_lists_pow[OF len] k by (simp add: cartesian_product_lists)
  have c2: "\<forall>r<n ^ k. \<forall>j<k. cartesian axes ! r ! j = axes ! j ! (r div n ^ (k - 1 - j) mod n)"
    using product_lists_nth[OF len] k by (simp add: cartesian_product_lists)
  have m1: "length (meshgrid_ij axes) = k"
    using k by (simp add: meshgrid_ij_def)
  have m2: "\<forall>j<k. nd_shape (meshgrid_ij axes ! j) = replicate k n
                     \<and> length (nd_data (meshgrid_ij axes ! j)) = n ^ k
                     \<and> (\<forall>r<n ^ k. nd_data (meshgrid_ij axes ! j) ! r
                                     = axes ! j ! (r div n ^ (k - 1 - j) mod n))"
    using meshgrid_ij_props[OF len] k by simp
  from gen k a(3) c1 c2 m1 m2 t assms(6) show ?thesis
    by (intro exI[of _ axes]) simp
qed

theorem tensor_grid_witness:
  "gam_fitted mixed_gam \<and> kind tensor_term = Tensor \<and> fitted tensor_term
   \<and> splines tensor_term
        = [Term Spline (ByIndex 0) True [] [] [] [], Term Spline (ByIndex 1) True [] [] [] []]
   \<and> get_column linear_env (Term Spline (ByIndex 0) True [] [] [] []) [[0, 1], [10, 3]]
        = Inr (A1 [0, 10])
   \<and> get_column linear_env (Term Spline (ByIndex 1) True [] [] [] []) [[0, 1], [10, 3]]
        = Inr (A1 [1, 3])
   \<and> generate_X_grid linear_env (Obj mixed_gam) (Obj tensor_term) [[0, 1], [10, 3]] 0 2
        = Inr (TensorGrid [[0, 1], [0, 3], [10, 1], [10, 3]]
            [\<lparr>nd_shape = [2, 2], nd_data = [0, 0, 10, 10]\<rparr>,
             \<lparr>nd_shape = [2, 2], nd_data = [1, 3, 1, 3]\<rparr>])
   \<and> (\<exists>axes. generate_X_grid linear_env (Obj mixed_gam) (Obj tensor_term) [[0, 1], [10, 3]] 0 2
                  = Inr (TensorGrid (cartesian axes) (meshgrid_ij axes))
           \<and> length axes = 2 \<and> length (cartesian axes) = 2 ^ 2
           \<and> length (meshgrid_ij axes) = 2)"
proof -
  have h1: "gam_fitted mixed_gam"
    by (simp add: mixed_gam_def)
  have h2: "kind tensor_term = Tensor" and h3: "fitted tensor_term"
    by (simp_all add: tensor_term_def)
  have h4: "\<forall>s\<in>set (splines tensor_term). fitted s \<and> (kind s = Linear \<or> kind s = Spline)
          \<and> (\<exists>col. get_column linear_env s [[0, 1], [10, 3]] = Inr col \<and> flat col \<noteq> [])"
    by (simp add: tensor_term_def linear_env_def column_of_def py_index_def flat_def)
  have h5: "(0::int) \<le> 2"
    by simp
  have h6: "2 = length (splines tensor_term)"
    by (simp add: tensor_term_def)
  have h7: "(2::nat) = nat 2"
    by simp
  have v: "generate_X_grid linear_env (Obj mixed_gam) (Obj tensor_term) [[0, 1], [10, 3]] 0 2
        = Inr (TensorGrid [[0, 1], [0, 3], [10, 1], [10, 3]]
            [\<lparr>nd_shape = [2, 2], nd_data = [0, 0, 10, 10]\<rparr>,
             \<lparr>nd_shape = [2, 2], nd_data = [1, 3, 1, 3]\<rparr>])"
    by (simp add: tensor_term_def mixed_gam_def linear_env_def column_of_def py_index_def
        np_min_def np_max_def flat_def linspace_def reshape_col_def ravel_def meshgrid_ij_def
        upt_rec)
  have c: "splines tensor_term
        = [Term Spline (ByIndex 0) True [] [] [] [], Term Spline (ByIndex 1) True [] [] [] []]"
    "get_column linear_env (Term Spline (ByIndex 0) True [] [] [] []) [[0, 1], [10, 3]]
        = Inr (A1 [0, 10])"
    "get_column linear_env (Term Spline (ByIndex 1) True [] [] [] []) [[0, 1], [10, 3]]
        = Inr (A1 [1, 3])"
    by (simp_all add: tensor_term_def linear_env_def column_of_def py_index_def)
  from tensor_grid[OF h1 h2 h3 h4 h5 h6 h7, of 0] h1 h2 h3 c v show ?thesis
    by blast
qed

subsection \<open>A term of no known kind\<close>

text \<open>
  An argument that is not a \<^verbatim>\<open>Term\<close> is rejected with a \<open>TypeError\<close> that names it. A
  fitted term of a class outside Intercept, Linear, Spline, Categorical and Tensor passes that
  check and then matches no branch.
\<close>

lemma not_a_term_rejected:
  "generate_X_grid E (Obj g) (Other s) X extrapolation num
     = Inl (TypeError (''Parameter `term` must be instance of Term, found: '' @ s))"
  by simp

lemma other_kind_no_grid:
  "gam_fitted g \<Longrightarrow>
     generate_X_grid E (Obj g) (Obj (Term (OtherKind c) f True co ci cats subs)) X
       extrapolation num = Inr NoGrid"
  by simp

text \<open>
  Claim C5, at the failing input. For a fitted term of the class \<open>Custom\<close>, a subclass of
  \<^verbatim>\<open>Term\<close> that is none of the five kinds, \<^verbatim>\<open>generate_X_grid\<close> raises nothing and
  returns \<open>None\<close>, where the claim has an invalid-argument error naming the type.
\<close>

theorem other_kind_falls_through:
  "generate_X_grid linear_env (Obj linear_gam)
     (Obj (Term (OtherKind ''Custom'') (ByIndex 0) True [2] [0] [] [])) [[0], [10]] (1 / 10) 5
   = Inr NoGrid"
  by (simp add: linear_gam_def)

subsection \<open>The parameter \<open>edges\<close>\<close>

text \<open>
  Claim C10. The argument \<open>edges\<close> is never read: two calls of \<^verbatim>\<open>partial_effect\<close>, or of
  \<^verbatim>\<open>PartialEffectDisplay.from_estimator\<close>, that differ in \<open>edges\<close> alone return the same
  result and leave the same store.
\<close>

theorem edges_not_read:
  "partial_effect E h gam term sd (e1 :: 'a) linear_scale
     = partial_effect E h gam term sd (e2 :: 'b) linear_scale
   \<and> from_estimator E h gam term X y sd e1 tr residuals
     = from_estimator E h gam term X y sd e2 tr residuals"
  by (simp add: partial_effect_def from_estimator_def)


subsection \<open>The checked standard deviation\<close>

text \<open>
  When both variance computations succeed with positive entries, neither assertion fires: the
  squares of the roots are the variances again.
\<close>

lemma stdev_checked_eq:
  assumes "fast_variance X V = Inr var" "explicit_variance X V = Inr var" "\<forall>x\<in>set var. 0 < x"
  shows "stdev_checked X V = Inr (map sqrt var)"
proof -
  have pos: "list_all (\<lambda>s. 0 < s) (map sqrt var)"
    using assms(3) by (simp add: list_all_iff)
  have "allclose (map (\<lambda>s. s ^ 2) (map sqrt var)) var"
    using assms(3) by (auto simp: allclose_def list_all2_map1 list_all2_same less_imp_le)
  with pos assms(1,2) show ?thesis
    by (simp add: stdev_checked_def)
qed

lemma stdev_checked_positive:
  assumes "stdev_checked X V = Inr sd"
  shows "\<forall>s\<in>set sd. 0 < s"
  using assms
  by (auto simp: stdev_checked_def ebind_eq_Inr Let_def list_all_iff split: if_splits)

subsection \<open>The model with one linear term, evaluated\<close>

text \<open>
  On the model with one linear term both functions return: the grid is \<open>linear_axis\<close>, the
  prediction twice the grid value, the standard deviation its absolute value.
\<close>

lemma column_of_reshape_col: "column_of (ByIndex 0) (reshape_col v) = Inr v"
  by (induction v) (simp_all add: column_of_def reshape_col_def py_index_def)

lemma transform_reshape_col:
  "transform linear_env linear_term (Some (reshape_col v)) = Inr (reshape_col v, linear_term)"
  by (simp add: linear_env_def linear_term_def column_of_reshape_col)

lemma matvec_reshape_col: "matvec (reshape_col v) [b] = Inr (map (\<lambda>x. x * b) v)"
  by (simp add: matvec_def reshape_col_def list_all_iff dot_def comp_def)

lemma is_matrix_reshape_col: "is_matrix (length v) 1 (reshape_col v)"
  by (simp add: is_matrix_def reshape_col_def list_all_iff)

lemma variance_reshape_col:
  "fast_variance (reshape_col v) [[c]] = Inr (map (\<lambda>x. x * c * x) v)"
  "explicit_variance (reshape_col v) [[c]] = Inr (map (\<lambda>x. x * c * x) v)"
proof -
  have V: "is_matrix 1 1 [[c]]" by (simp add: is_matrix_def)
  have "map2 dot (map (\<lambda>r. map (dot r) (columns [[c]])) (reshape_col v)) (reshape_col v)
          = map (\<lambda>x. x * c * x) v"
    by (induction v) (simp_all add: reshape_col_def columns_def dot_def)
  with variances_square[OF is_matrix_reshape_col V, of v]
  show "fast_variance (reshape_col v) [[c]] = Inr (map (\<lambda>x. x * c * x) v)"
    "explicit_variance (reshape_col v) [[c]] = Inr (map (\<lambda>x. x * c * x) v)"
    by simp_all
qed

lemma stdev_reshape_col:
  assumes "0 \<notin> set v"
  shows "stdev_checked (reshape_col v) [[1]] = Inr (map abs v)"
proof -
  have "\<forall>x\<in>set (map (\<lambda>x. x * 1 * x) v). 0 < x"
    using assms by (auto simp: zero_less_mult_iff) (metis linorder_neqE_linordered_idom)+
  from stdev_checked_eq[OF variance_reshape_col this]
  show ?thesis by (simp add: comp_def)
qed

lemma linear_axis_nonzero:
  assumes "num = 100 \<or> num = 256"
  shows "0 \<notin> set (linear_axis num)"
proof
  assume "0 \<in> set (linear_axis num)"
  then obtain i :: nat where "- (1 / 10) + real i * ((51 / 5) / real_of_int (num - 1)) = 0"
    by (auto simp: linear_axis_def)
  with assms have "real i * 102 = 99 \<or> real i * 102 = 255"
    by (auto simp: field_simps)
  then have "real (i * 102) = real 99 \<or> real (i * 102) = real 255"
    by simp
  then have "i * 102 = 99 \<or> i * 102 = 255"
    by (simp only: of_nat_eq_iff)
  then show False by presburger
qed

lemma linear_grid:
  assumes "0 \<le> num"
  shows "generate_X_grid linear_env (Obj linear_gam) (Obj linear_term) [[0], [10]] (1 / 100) num
           = Inr (Grid (reshape_col (linear_axis num)))"
proof -
  have h1: "gam_fitted linear_gam" by (simp add: linear_gam_def)
  have h2: "fitted linear_term" by (simp add: linear_term_def)
  have h3: "kind linear_term = Linear \<or> kind linear_term = Spline" by (simp add: linear_term_def)
  have h4: "get_column linear_env linear_term [[0], [10]] = Inr (A1 [0, 10])"
    by (simp add: linear_env_def linear_term_def column_of_def py_index_def)
  have h5: "flat (A1 [0, 10]) \<noteq> []" by (simp add: flat_def)
  from axis_grid[OF h1 h2 h3 h4 h5 assms, of "1 / 100"] show ?thesis
    by (simp add: flat_def linear_axis_def)
qed

lemma vzip_same: "vzip f (map g v) (map k v) = Inr (map (\<lambda>x. f (g x) (k x)) v)"
  by (simp add: vzip_def zip_map_map zip_same_conv_map comp_def)

lemma check_scalar_accepts:
  "\<not> xle s (Fin 0) \<Longrightarrow> check_scalar (RealNum s) = Inr s"
  by (simp add: check_scalar_def)

lemma linear_smooth_grid:
  assumes "0 \<le> num"
  shows "smooth_grid linear_env linear_gam linear_term num
           = Inr (Some (reshape_col (linear_axis num)), None, linear_term)"
proof -
  have "gam_X linear_gam = [[0], [10]]" by (simp add: linear_gam_def)
  with linear_grid[OF assms] show ?thesis
    by (simp add: smooth_grid_def) (simp add: linear_term_def)
qed

lemma linear_data:
  "get_column linear_env linear_term [[0], [10]] = Inr (A1 [0, 10])"
  "transform linear_env linear_term (Some [[0], [10]]) = Inr ([[0], [10]], linear_term)"
  by (simp_all add: linear_env_def linear_term_def column_of_def py_index_def reshape_col_def)

lemma linear_pe_result:
  assumes "0 \<notin> set v"
  shows "pe_result linear_gam linear_term s linear_scale (A1 [0, 10]) [[0], [10]]
           (Some (reshape_col v)) None (reshape_col v)
         = Inr \<lparr>b_x = Some (reshape_col v),
                b_y = map (\<lambda>x. Fin (x * 2)) v,
                b_y_low = map (\<lambda>x. xsub (Fin (x * 2)) (xmul s (Fin \<bar>x\<bar>))) v,
                b_y_high = map (\<lambda>x. xadd (Fin (x * 2)) (xmul s (Fin \<bar>x\<bar>))) v,
                b_x_obs = A1 [0, 10],
                b_y_partial_residuals =
                  (if linear_scale then Plain [Fin 1, Fin 19] else Tuple1 [Fin 1, Fin 19]),
                b_meshgrid = None\<rparr>"
proof -
  have t: "term_coef linear_term = [2]" "coef_idx linear_term = [0]"
    by (simp_all add: linear_term_def)
  have g: "covariance linear_gam = [[1]]" "model_matrix linear_gam = [[0], [10]]"
    "gam_coef linear_gam = [2]" "gam_y linear_gam = [1, 19]"
    "inverse_link (gam_link linear_gam) = (\<lambda>v. v)"
    by (simp_all add: linear_gam_def identity_link_def)
  have V: "ix_sub [[1]] [0] [0] = Inr [[1]]"
    by (simp add: ix_sub_def py_index_def ncols_def)
  have eta: "matvec [[0], [10]] [2] = Inr [0, 20]"
    by (simp add: matvec_def dot_def)
  have res: "vzip xsub [Fin 1, Fin 19] [Fin 0, Fin 20] = Inr [Fin 1, Fin (- 1)]"
    by (simp add: vzip_def xsub_def)
  have pr: "vzip xadd [Fin 0, Fin 20] [Fin 1, Fin (- 1)] = Inr [Fin 1, Fin 19]"
    by (simp add: vzip_def)
  show ?thesis
    unfolding pe_result_def t g
    by (simp add: matvec_reshape_col V stdev_reshape_col[OF assms] eta res pr vzip_same
        comp_def Let_def)
qed

lemma linear_pe_logic:
  "pe_logic linear_env linear_gam linear_term s linear_scale
     = (Inr \<lparr>b_x = Some (reshape_col (linear_axis 100)),
              b_y = map (\<lambda>x. Fin (x * 2)) (linear_axis 100),
              b_y_low = map (\<lambda>x. xsub (Fin (x * 2)) (xmul s (Fin \<bar>x\<bar>))) (linear_axis 100),
              b_y_high = map (\<lambda>x. xadd (Fin (x * 2)) (xmul s (Fin \<bar>x\<bar>))) (linear_axis 100),
              b_x_obs = A1 [0, 10],
              b_y_partial_residuals =
                (if linear_scale then Plain [Fin 1, Fin 19] else Tuple1 [Fin 1, Fin 19]),
              b_meshgrid = None\<rparr>, linear_term)"
proof -
  have X: "gam_X linear_gam = [[0], [10]]" by (simp add: linear_gam_def)
  have nz: "0 \<notin> set (linear_axis 100)" by (rule linear_axis_nonzero) simp
  show ?thesis
    unfolding pe_logic_def X
    by (simp add: linear_data linear_smooth_grid transform_reshape_col linear_pe_result[OF nz])
qed

lemma linear_partial_effect:
  assumes "\<not> xle s (Fin 0)"
  shows "partial_effect linear_env [linear_term] (Obj linear_gam) (Obj 0) (RealNum s) edges
           linear_scale
     = (Inr \<lparr>b_x = Some (reshape_col (linear_axis 100)),
              b_y = map (\<lambda>x. Fin (x * 2)) (linear_axis 100),
              b_y_low = map (\<lambda>x. xsub (Fin (x * 2)) (xmul s (Fin \<bar>x\<bar>))) (linear_axis 100),
              b_y_high = map (\<lambda>x. xadd (Fin (x * 2)) (xmul s (Fin \<bar>x\<bar>))) (linear_axis 100),
              b_x_obs = A1 [0, 10],
              b_y_partial_residuals =
                (if linear_scale then Plain [Fin 1, Fin 19] else Tuple1 [Fin 1, Fin 19]),
              b_meshgrid = None\<rparr>, [linear_term, linear_term])"
proof -
  have v: "kind linear_term = Linear" "fitted linear_term" "gam_fitted linear_gam"
    "term_in linear_env [linear_term] 0 (terms linear_gam)"
    by (simp_all add: linear_term_def linear_gam_def term_in_def)
  show ?thesis
    unfolding partial_effect_def
    by (simp add: v check_scalar_accepts[OF assms] deepcopy_def linear_pe_logic)
qed

lemma np_squeeze_reshape_col:
  assumes "length v \<noteq> 1"
  shows "np_squeeze (reshape_col v) = A1 v"
proof -
  have c: "concat (reshape_col v) = v"
    by (induction v) (simp_all add: reshape_col_def)
  have a: "list_all (\<lambda>r. length r = 1) (reshape_col v)"
    by (simp add: reshape_col_def list_all_iff)
  show ?thesis
  proof (cases v)
    case Nil
    then show ?thesis by (simp add: np_squeeze_def reshape_col_def)
  next
    case (Cons x xs)
    with assms obtain y ys where "xs = y # ys" by (cases xs) auto
    with Cons a c show ?thesis
      by (simp add: np_squeeze_def reshape_col_def)
  qed
qed

lemma linear_fe_result:
  assumes "0 \<notin> set v" "length v \<noteq> 1"
  shows "fe_result linear_env linear_gam linear_term [[0], [10]] [1, 19] s tr residuals
           [[0], [10]] (A1 [0, 10]) (Some (reshape_col v)) (reshape_col v)
         = Inr \<lparr>d_x = Some (A1 v),
                d_y = select_transformation linear_gam tr (map (\<lambda>x. Fin (x * 2)) v),
                d_y_low = select_transformation linear_gam tr
                            (map (\<lambda>x. xsub (Fin (x * 2)) (xmul s (Fin \<bar>x\<bar>))) v),
                d_y_high = select_transformation linear_gam tr
                            (map (\<lambda>x. xadd (Fin (x * 2)) (xmul s (Fin \<bar>x\<bar>))) v),
                d_x_obs = A1 [0, 10],
                d_y_partial_residuals =
                  (if residuals then Some (select_transformation linear_gam tr [Fin 1, Fin 19])
                   else None)\<rparr>"
proof -
  have t: "term_coef linear_term = [2]" "coef_idx linear_term = [0]"
    by (simp_all add: linear_term_def)
  have g: "covariance linear_gam = [[1]]" "link (gam_link linear_gam) = (\<lambda>v. v)"
    by (simp_all add: linear_gam_def identity_link_def)
  have V: "ix_sub [[1]] [0] [0] = Inr [[1]]"
    by (simp add: ix_sub_def py_index_def ncols_def)
  have nb: "y_noboundary (gam_link linear_gam) [1, 19] = [Fin 1, Fin 19]"
    by (simp add: y_noboundary_def linear_gam_def identity_link_def xmax_def xmin_def xsub_def)
  have mu: "predict linear_env linear_gam [[0], [10]] = Inr [Fin 0, Fin 20]"
    by (simp add: linear_env_def linear_gam_def identity_link_def matvec_def dot_def)
  have res: "vzip xsub [Fin 1, Fin 19] [Fin 0, Fin 20] = Inr [Fin 1, Fin (- 1)]"
    by (simp add: vzip_def xsub_def)
  have c: "matvec [[0], [10]] [2] = Inr [0, 20]"
    by (simp add: matvec_def dot_def)
  have pr: "vzip xadd [Fin 0, Fin 20] [Fin 1, Fin (- 1)] = Inr [Fin 1, Fin 19]"
    by (simp add: vzip_def)
  show ?thesis
    unfolding fe_result_def t g
    by (simp add: matvec_reshape_col V stdev_reshape_col[OF assms(1)] nb mu res c pr vzip_same
        np_squeeze_reshape_col[OF assms(2)] comp_def Let_def)
qed

lemma linear_from_estimator:
  assumes "\<not> xle s (Fin 0)"
  shows "from_estimator linear_env [linear_term] (Obj linear_gam) (Obj 0) [[0], [10]] [1, 19]
           (RealNum s) edges tr residuals
     = (Inr \<lparr>d_x = Some (A1 (linear_axis 256)),
              d_y = select_transformation linear_gam tr (map (\<lambda>x. Fin (x * 2)) (linear_axis 256)),
              d_y_low = select_transformation linear_gam tr
                          (map (\<lambda>x. xsub (Fin (x * 2)) (xmul s (Fin \<bar>x\<bar>))) (linear_axis 256)),
              d_y_high = select_transformation linear_gam tr
                          (map (\<lambda>x. xadd (Fin (x * 2)) (xmul s (Fin \<bar>x\<bar>))) (linear_axis 256)),
              d_x_obs = A1 [0, 10],
              d_y_partial_residuals =
                (if residuals then Some (select_transformation linear_gam tr [Fin 1, Fin 19])
                 else None)\<rparr>, [linear_term, linear_term])"
proof -
  have v: "fitted linear_term" "gam_fitted linear_gam"
    "term_in linear_env [linear_term] 0 (terms linear_gam)"
    by (simp_all add: linear_term_def linear_gam_def term_in_def)
  have nz: "0 \<notin> set (linear_axis 256)" by (rule linear_axis_nonzero) simp
  have len: "length (linear_axis 256) \<noteq> 1" by (simp add: linear_axis_def)
  have sg: "smooth_grid linear_env linear_gam linear_term 256
           = Inr (Some (reshape_col (linear_axis 256)), None, linear_term)"
    by (rule linear_smooth_grid) simp
  have "fe_logic linear_env linear_gam linear_term [[0], [10]] [1, 19] s tr residuals
     = (Inr \<lparr>d_x = Some (A1 (linear_axis 256)),
              d_y = select_transformation linear_gam tr (map (\<lambda>x. Fin (x * 2)) (linear_axis 256)),
              d_y_low = select_transformation linear_gam tr
                          (map (\<lambda>x. xsub (Fin (x * 2)) (xmul s (Fin \<bar>x\<bar>))) (linear_axis 256)),
              d_y_high = select_transformation linear_gam tr
                          (map (\<lambda>x. xadd (Fin (x * 2)) (xmul s (Fin \<bar>x\<bar>))) (linear_axis 256)),
              d_x_obs = A1 [0, 10],
              d_y_partial_residuals =
                (if residuals then Some (select_transformation linear_gam tr [Fin 1, Fin 19])
                 else None)\<rparr>, linear_term)"
    unfolding fe_logic_def
    by (simp add: linear_data sg transform_reshape_col linear_fe_result[OF nz len])
  then show ?thesis
    unfolding from_estimator_def
    by (simp add: v check_scalar_accepts[OF assms] deepcopy_def)
qed

lemma length_linear_axis: "0 \<le> num \<Longrightarrow> length (linear_axis num) = nat num"
  by (simp add: linear_axis_def)

lemma linear_axis_first: "linear_axis 256 ! 0 = - (1 / 10)" "linear_axis 100 ! 0 = - (1 / 10)"
  by (simp_all add: linear_axis_def)


subsection \<open>The model with two terms, evaluated\<close>

text \<open>
  On the model with a linear and a categorical term the caller's terms read the features 1
  and 2. The copy of the linear term is relabelled to feature 0 and is then the term
  \<open>linear_term\<close>; its grid is \<open>linear_axis\<close>. The grid of the categorical term is its levels.
\<close>

lemma two_term_validation:
  "gam_fitted two_term_gam" "fitted (two_term_heap ! 0)" "fitted (two_term_heap ! 1)"
  "term_in two_term_env two_term_heap 0 (terms two_term_gam)"
  "term_in two_term_env two_term_heap 1 (terms two_term_gam)"
  "kind (two_term_heap ! 0) = Linear" "kind (two_term_heap ! 1) = Categorical"
  by (simp_all add: two_term_gam_def two_term_heap_def slope_term_def level_term_def term_in_def)

lemma two_term_data:
  "gam_X two_term_gam = [[7, 0, 0], [3, 10, 1]]"
  "get_column two_term_env slope_term [[7, 0, 0], [3, 10, 1]] = Inr (A1 [0, 10])"
  "transform two_term_env slope_term (Some [[7, 0, 0], [3, 10, 1]]) = Inr ([[0], [10]], slope_term)"
  "get_column two_term_env level_term [[7, 0, 0], [3, 10, 1]] = Inr (A1 [0, 1])"
  "transform two_term_env level_term (Some [[7, 0, 0], [3, 10, 1]])
     = Inr ([[1, 0], [0, 1]], level_term)"
  "predict two_term_env two_term_gam [[7, 0, 0], [3, 10, 1]] = Inr [Fin 1, Fin 22]"
  by (simp_all add: two_term_gam_def two_term_env_def slope_term_def level_term_def
      column_of_def py_index_def reshape_col_def one_hot_def matvec_def dot_def identity_link_def)

lemma two_term_transform_grid:
  "transform two_term_env linear_term (Some (reshape_col v)) = Inr (reshape_col v, linear_term)"
  by (simp add: two_term_env_def linear_term_def column_of_reshape_col)

lemma slope_smooth_grid:
  assumes "0 \<le> num"
  shows "smooth_grid two_term_env two_term_gam slope_term num
           = Inr (Some (reshape_col (linear_axis num)), None, linear_term)"
proof -
  have h1: "gam_fitted two_term_gam" by (simp add: two_term_gam_def)
  have h2: "fitted slope_term" by (simp add: slope_term_def)
  have h3: "kind slope_term = Linear \<or> kind slope_term = Spline" by (simp add: slope_term_def)
  have h5: "flat (A1 [0, 10]) \<noteq> []" by (simp add: flat_def)
  from axis_grid[OF h1 h2 h3 two_term_data(2) h5 assms, of "1 / 100"]
  have "generate_X_grid two_term_env (Obj two_term_gam) (Obj slope_term)
          [[7, 0, 0], [3, 10, 1]] (1 / 100) num = Inr (Grid (reshape_col (linear_axis num)))"
    by (simp add: flat_def linear_axis_def)
  then show ?thesis
    by (simp add: smooth_grid_def two_term_data(1)) (simp add: slope_term_def linear_term_def)
qed


lemma two_term_model:
  "covariance two_term_gam = [[1, 0, 0], [0, 1, 0], [0, 0, 1]]"
  "model_matrix two_term_gam = [[0, 1, 0], [10, 0, 1]]"
  "gam_coef two_term_gam = [2, 1, 2]" "gam_y two_term_gam = [1, 19]"
  "inverse_link (gam_link two_term_gam) = (\<lambda>v. v)"
  "link (gam_link two_term_gam) = (\<lambda>v. v)"
  "ix_sub [[1, 0, 0], [0, 1, 0], [0, 0, 1]] [0] [0] = Inr [[1]]"
  "ix_sub [[1, 0, 0], [0, 1, 0], [0, 0, 1]] [1, 2] [1, 2] = Inr [[1, 0], [0, 1]]"
  "matvec [[0, 1, 0], [10, 0, 1]] [2, 1, 2] = Inr [1, 22]"
  "y_noboundary (gam_link two_term_gam) [1, 19] = [Fin 1, Fin 19]"
  by (simp_all add: two_term_gam_def identity_link_def ix_sub_def py_index_def ncols_def
      matvec_def dot_def y_noboundary_def xmax_def xmin_def xsub_def)

lemma slope_pe_result:
  assumes "0 \<notin> set v"
  shows "pe_result two_term_gam linear_term s linear_scale (A1 [0, 10]) [[0], [10]]
           (Some (reshape_col v)) None (reshape_col v)
         = Inr \<lparr>b_x = Some (reshape_col v),
                b_y = map (\<lambda>x. Fin (x * 2)) v,
                b_y_low = map (\<lambda>x. xsub (Fin (x * 2)) (xmul s (Fin \<bar>x\<bar>))) v,
                b_y_high = map (\<lambda>x. xadd (Fin (x * 2)) (xmul s (Fin \<bar>x\<bar>))) v,
                b_x_obs = A1 [0, 10],
                b_y_partial_residuals =
                  (if linear_scale then Plain [Fin 0, Fin 17] else Tuple1 [Fin 0, Fin 17]),
                b_meshgrid = None\<rparr>"
proof -
  have t: "term_coef linear_term = [2]" "coef_idx linear_term = [0]"
    by (simp_all add: linear_term_def)
  have res: "vzip xsub [Fin 1, Fin 19] [Fin 1, Fin 22] = Inr [Fin 0, Fin (- 3)]"
    by (simp add: vzip_def xsub_def)
  have c: "matvec [[0], [10]] [2] = Inr [0, 20]"
    by (simp add: matvec_def dot_def)
  have pr: "vzip xadd [Fin 0, Fin 20] [Fin 0, Fin (- 3)] = Inr [Fin 0, Fin 17]"
    by (simp add: vzip_def)
  show ?thesis
    unfolding pe_result_def t two_term_model(1-5)
    by (simp add: matvec_reshape_col two_term_model(7,9) stdev_reshape_col[OF assms] c res pr
        vzip_same comp_def Let_def)
qed

lemma slope_partial_effect:
  assumes "\<not> xle s (Fin 0)"
  shows "partial_effect two_term_env two_term_heap (Obj two_term_gam) (Obj 0) (RealNum s) edges
           linear_scale
     = (Inr \<lparr>b_x = Some (reshape_col (linear_axis 100)),
              b_y = map (\<lambda>x. Fin (x * 2)) (linear_axis 100),
              b_y_low = map (\<lambda>x. xsub (Fin (x * 2)) (xmul s (Fin \<bar>x\<bar>))) (linear_axis 100),
              b_y_high = map (\<lambda>x. xadd (Fin (x * 2)) (xmul s (Fin \<bar>x\<bar>))) (linear_axis 100),
              b_x_obs = A1 [0, 10],
              b_y_partial_residuals =
                (if linear_scale then Plain [Fin 0, Fin 17] else Tuple1 [Fin 0, Fin 17]),
              b_meshgrid = None\<rparr>, [slope_term, level_term, linear_term])"
proof -
  have nz: "0 \<notin> set (linear_axis 100)" by (rule linear_axis_nonzero) simp
  have sg: "smooth_grid two_term_env two_term_gam slope_term 100
           = Inr (Some (reshape_col (linear_axis 100)), None, linear_term)"
    by (rule slope_smooth_grid) simp
  have "pe_logic two_term_env two_term_gam slope_term s linear_scale
     = (Inr \<lparr>b_x = Some (reshape_col (linear_axis 100)),
              b_y = map (\<lambda>x. Fin (x * 2)) (linear_axis 100),
              b_y_low = map (\<lambda>x. xsub (Fin (x * 2)) (xmul s (Fin \<bar>x\<bar>))) (linear_axis 100),
              b_y_high = map (\<lambda>x. xadd (Fin (x * 2)) (xmul s (Fin \<bar>x\<bar>))) (linear_axis 100),
              b_x_obs = A1 [0, 10],
              b_y_partial_residuals =
                (if linear_scale then Plain [Fin 0, Fin 17] else Tuple1 [Fin 0, Fin 17]),
              b_meshgrid = None\<rparr>, linear_term)"
    unfolding pe_logic_def two_term_data(1)
    by (simp add: two_term_data sg two_term_transform_grid slope_pe_result[OF nz])
  moreover have "slope_term = two_term_heap ! 0" by (simp add: two_term_heap_def)
  ultimately have "pe_logic two_term_env two_term_gam (two_term_heap ! 0) s linear_scale
     = (Inr \<lparr>b_x = Some (reshape_col (linear_axis 100)),
              b_y = map (\<lambda>x. Fin (x * 2)) (linear_axis 100),
              b_y_low = map (\<lambda>x. xsub (Fin (x * 2)) (xmul s (Fin \<bar>x\<bar>))) (linear_axis 100),
              b_y_high = map (\<lambda>x. xadd (Fin (x * 2)) (xmul s (Fin \<bar>x\<bar>))) (linear_axis 100),
              b_x_obs = A1 [0, 10],
              b_y_partial_residuals =
                (if linear_scale then Plain [Fin 0, Fin 17] else Tuple1 [Fin 0, Fin 17]),
              b_meshgrid = None\<rparr>, linear_term)"
    by simp
  then show ?thesis
    unfolding partial_effect_def
    by (simp add: two_term_validation check_scalar_accepts[OF assms] deepcopy_def)
      (simp add: two_term_heap_def)
qed

lemma slope_fe_result:
  assumes "0 \<notin> set v" "length v \<noteq> 1"
  shows "fe_result two_term_env two_term_gam linear_term [[7, 0, 0], [3, 10, 1]] [1, 19] s tr
           residuals [[0], [10]] (A1 [0, 10]) (Some (reshape_col v)) (reshape_col v)
         = Inr \<lparr>d_x = Some (A1 v),
                d_y = select_transformation two_term_gam tr (map (\<lambda>x. Fin (x * 2)) v),
                d_y_low = select_transformation two_term_gam tr
                            (map (\<lambda>x. xsub (Fin (x * 2)) (xmul s (Fin \<bar>x\<bar>))) v),
                d_y_high = select_transformation two_term_gam tr
                            (map (\<lambda>x. xadd (Fin (x * 2)) (xmul s (Fin \<bar>x\<bar>))) v),
                d_x_obs = A1 [0, 10],
                d_y_partial_residuals =
                  (if residuals then Some (select_transformation two_term_gam tr [Fin 0, Fin 17])
                   else None)\<rparr>"
proof -
  have t: "term_coef linear_term = [2]" "coef_idx linear_term = [0]"
    by (simp_all add: linear_term_def)
  have res: "vzip xsub [Fin 1, Fin 19] [Fin 1, Fin 22] = Inr [Fin 0, Fin (- 3)]"
    by (simp add: vzip_def xsub_def)
  have c: "matvec [[0], [10]] [2] = Inr [0, 20]"
    by (simp add: matvec_def dot_def)
  have pr: "vzip xadd [Fin 0, Fin 20] [Fin 0, Fin (- 3)] = Inr [Fin 0, Fin 17]"
    by (simp add: vzip_def)
  show ?thesis
    unfolding fe_result_def t two_term_model(1,6)
    by (simp add: matvec_reshape_col two_term_model(7,10) stdev_reshape_col[OF assms(1)]
        two_term_data(6) res c pr vzip_same np_squeeze_reshape_col[OF assms(2)] comp_def Let_def)
qed

lemma slope_from_estimator:
  assumes "\<not> xle s (Fin 0)"
  shows "from_estimator two_term_env two_term_heap (Obj two_term_gam) (Obj 0)
           [[7, 0, 0], [3, 10, 1]] [1, 19] (RealNum s) edges tr residuals
     = (Inr \<lparr>d_x = Some (A1 (linear_axis 256)),
              d_y = select_transformation two_term_gam tr (map (\<lambda>x. Fin (x * 2)) (linear_axis 256)),
              d_y_low = select_transformation two_term_gam tr
                          (map (\<lambda>x. xsub (Fin (x * 2)) (xmul s (Fin \<bar>x\<bar>))) (linear_axis 256)),
              d_y_high = select_transformation two_term_gam tr
                          (map (\<lambda>x. xadd (Fin (x * 2)) (xmul s (Fin \<bar>x\<bar>))) (linear_axis 256)),
              d_x_obs = A1 [0, 10],
              d_y_partial_residuals =
                (if residuals then Some (select_transformation two_term_gam tr [Fin 0, Fin 17])
                 else None)\<rparr>, [slope_term, level_term, linear_term])"
proof -
  have nz: "0 \<notin> set (linear_axis 256)" by (rule linear_axis_nonzero) simp
  have len: "length (linear_axis 256) \<noteq> 1" by (simp add: linear_axis_def)
  have sg: "smooth_grid two_term_env two_term_gam slope_term 256
           = Inr (Some (reshape_col (linear_axis 256)), None, linear_term)"
    by (rule slope_smooth_grid) simp
  have "fe_logic two_term_env two_term_gam slope_term [[7, 0, 0], [3, 10, 1]] [1, 19] s tr
          residuals
     = (Inr \<lparr>d_x = Some (A1 (linear_axis 256)),
              d_y = select_transformation two_term_gam tr (map (\<lambda>x. Fin (x * 2)) (linear_axis 256)),
              d_y_low = select_transformation two_term_gam tr
                          (map (\<lambda>x. xsub (Fin (x * 2)) (xmul s (Fin \<bar>x\<bar>))) (linear_axis 256)),
              d_y_high = select_transformation two_term_gam tr
                          (map (\<lambda>x. xadd (Fin (x * 2)) (xmul s (Fin \<bar>x\<bar>))) (linear_axis 256)),
              d_x_obs = A1 [0, 10],
              d_y_partial_residuals =
                (if residuals then Some (select_transformation two_term_gam tr [Fin 0, Fin 17])
                 else None)\<rparr>, linear_term)"
    unfolding fe_logic_def
    by (simp add: two_term_data sg two_term_transform_grid slope_fe_result[OF nz len])
  moreover have "slope_term = two_term_heap ! 0" by (simp add: two_term_heap_def)
  ultimately have "fe_logic two_term_env two_term_gam (two_term_heap ! 0) [[7, 0, 0], [3, 10, 1]]
          [1, 19] s tr residuals
     = (Inr \<lparr>d_x = Some (A1 (linear_axis 256)),
              d_y = select_transformation two_term_gam tr (map (\<lambda>x. Fin (x * 2)) (linear_axis 256)),
              d_y_low = select_transformation two_term_gam tr
                          (map (\<lambda>x. xsub (Fin (x * 2)) (xmul s (Fin \<bar>x\<bar>))) (linear_axis 256)),
              d_y_high = select_transformation two_term_gam tr
                          (map (\<lambda>x. xadd (Fin (x * 2)) (xmul s (Fin \<bar>x\<bar>))) (linear_axis 256)),
              d_x_obs = A1 [0, 10],
              d_y_partial_residuals =
                (if residuals then Some (select_transformation two_term_gam tr [Fin 0, Fin 17])
                 else None)\<rparr>, linear_term)"
    by simp
  then show ?thesis
    unfolding from_estimator_def
    by (simp add: two_term_validation check_scalar_accepts[OF assms] deepcopy_def)
      (simp add: two_term_heap_def)
qed








subsection \<open>Which terms are accepted\<close>









lemma intercept_not_relabelled:
  assumes "gam_fitted g" "fitted t" "kind t = Intercept"
  shows "smooth_grid E g t num
           = Inl (ValueError ''Invalid parameter feature for estimator Intercept'')"
  using assms by (cases t) (simp add: smooth_grid_def)






subsection \<open>The order of the bounds\<close>

lemma xband:
  assumes "0 < sd" "\<not> xle s (Fin 0)" "s \<noteq> NaN"
  shows "xle (xsub (Fin p) (xmul s (Fin sd))) (Fin p)"
    and "xle (Fin p) (xadd (Fin p) (xmul s (Fin sd)))"
  using assms by (cases s; simp add: xsub_def xsign_def)+

lemma vzip_eq_Inr: "vzip f u v = Inr w \<longleftrightarrow> length u = length v \<and> w = map2 f u v"
  by (auto simp: vzip_def)

lemma band_rows:
  assumes "\<forall>x\<in>set sdv. 0 < x" "\<not> xle s (Fin 0)" "s \<noteq> NaN" "length lp = length sdv"
    and "\<forall>a b. xle a b \<longrightarrow> xle (f a) (f b)"
  shows "\<forall>i<length lp.
           xle (f (map2 xsub (map Fin lp) (map (\<lambda>x. xmul s (Fin x)) sdv) ! i)) (f (map Fin lp ! i))
         \<and> xle (f (map Fin lp ! i)) (f (map2 xadd (map Fin lp) (map (\<lambda>x. xmul s (Fin x)) sdv) ! i))"
proof (intro allI impI)
  fix i assume i: "i < length lp"
  with assms(1,4) have "0 < sdv ! i" by simp
  from xband[OF this assms(2,3)] i assms(4,5) show
    "xle (f (map2 xsub (map Fin lp) (map (\<lambda>x. xmul s (Fin x)) sdv) ! i)) (f (map Fin lp ! i))
         \<and> xle (f (map Fin lp ! i)) (f (map2 xadd (map Fin lp) (map (\<lambda>x. xmul s (Fin x)) sdv) ! i))"
    by simp
qed

lemma pe_result_band:
  assumes "pe_result g t s linear_scale data Xo Xs mg X = Inr r"
    and "\<not> xle s (Fin 0)" "s \<noteq> NaN"
    and "linear_scale \<or> (\<forall>a b. xle a b \<longrightarrow> xle (inverse_link (gam_link g) a) (inverse_link (gam_link g) b))"
  shows "length (b_y_low r) = length (b_y r) \<and> length (b_y_high r) = length (b_y r)
         \<and> (\<forall>i<length (b_y r). xle (b_y_low r ! i) (b_y r ! i) \<and> xle (b_y r ! i) (b_y_high r ! i))"
proof -
  from assms(1) obtain lp V sdv where lp: "matvec X (term_coef t) = Inr lp"
    and sdv: "stdev_checked X V = Inr sdv"
    and len: "length lp = length sdv"
    and r: "linear_scale \<longrightarrow> b_y r = map Fin lp
              \<and> b_y_low r = map2 xsub (map Fin lp) (map (\<lambda>x. xmul s (Fin x)) sdv)
              \<and> b_y_high r = map2 xadd (map Fin lp) (map (\<lambda>x. xmul s (Fin x)) sdv)"
       "\<not> linear_scale \<longrightarrow> b_y r = map (inverse_link (gam_link g)) (map Fin lp)
              \<and> b_y_low r = map (inverse_link (gam_link g))
                   (map2 xsub (map Fin lp) (map (\<lambda>x. xmul s (Fin x)) sdv))
              \<and> b_y_high r = map (inverse_link (gam_link g))
                   (map2 xadd (map Fin lp) (map (\<lambda>x. xmul s (Fin x)) sdv))"
    by (auto simp: pe_result_def ebind_eq_Inr Let_def vzip_eq_Inr split: if_splits)
  have pos: "\<forall>x\<in>set sdv. 0 < x" by (rule stdev_checked_positive[OF sdv])
  show ?thesis
  proof (cases linear_scale)
    case True
    from band_rows[OF pos assms(2,3) len, of "\<lambda>v. v"] True r len show ?thesis by simp
  next
    case False
    with assms(4) have "\<forall>a b. xle a b \<longrightarrow> xle (inverse_link (gam_link g) a) (inverse_link (gam_link g) b)"
      by simp
    from band_rows[OF pos assms(2,3) len this] False r len show ?thesis by simp
  qed
qed

lemma partial_effect_Inr:
  assumes "partial_effect E h (Obj g) term (RealNum s) edges linear_scale = (Inr r, h')"
  shows "\<not> xle s (Fin 0) \<and> (\<exists>t data Xo Xs mg X. pe_result g t s linear_scale data Xo Xs mg X = Inr r)"
  using assms
  by (auto simp: partial_effect_def pe_logic_def check_scalar_def deepcopy_def
      split: pyobj.splits if_splits sum.splits prod.splits) blast+

lemma fe_result_band:
  assumes "fe_result E g t X y s tr residuals Xt xo Xs Xst = Inr d"
    and "\<not> xle s (Fin 0)" "s \<noteq> NaN"
    and "tr = TNone \<or> tr = TFalse
         \<or> tr = TTrue \<and> (\<forall>a b. xle a b \<longrightarrow>
               xle (inverse_link (gam_link g) a) (inverse_link (gam_link g) b))
         \<or> tr = TCallable (map f) \<and> (\<forall>a b. xle a b \<longrightarrow> xle (f a) (f b))"
  shows "length (d_y_low d) = length (d_y d) \<and> length (d_y_high d) = length (d_y d)
         \<and> (\<forall>i<length (d_y d). xle (d_y_low d ! i) (d_y d ! i) \<and> xle (d_y d ! i) (d_y_high d ! i))"
proof -
  from assms(1) obtain lp V sdv where lp: "matvec Xst (term_coef t) = Inr lp"
    and sdv: "stdev_checked Xst V = Inr sdv"
    and len: "length lp = length sdv"
    and d: "d_y d = select_transformation g tr (map Fin lp)"
       "d_y_low d = select_transformation g tr
                      (map2 xsub (map Fin lp) (map (\<lambda>x. xmul s (Fin x)) sdv))"
       "d_y_high d = select_transformation g tr
                      (map2 xadd (map Fin lp) (map (\<lambda>x. xmul s (Fin x)) sdv))"
    by (auto simp: fe_result_def ebind_eq_Inr Let_def vzip_eq_Inr split: if_splits)
  have pos: "\<forall>x\<in>set sdv. 0 < x" by (rule stdev_checked_positive[OF sdv])
  from assms(4) consider "tr = TNone \<or> tr = TFalse"
    | "tr = TTrue" "\<forall>a b. xle a b \<longrightarrow>
               xle (inverse_link (gam_link g) a) (inverse_link (gam_link g) b)"
    | "tr = TCallable (map f)" "\<forall>a b. xle a b \<longrightarrow> xle (f a) (f b)"
    by blast
  then show ?thesis
  proof cases
    case 1
    from band_rows[OF pos assms(2,3) len, of "\<lambda>v. v"] 1 d len show ?thesis
      by (auto simp: select_transformation_def)
  next
    case 2
    from band_rows[OF pos assms(2,3) len 2(2)] 2(1) d len show ?thesis
      by (simp add: select_transformation_def)
  next
    case 3
    from band_rows[OF pos assms(2,3) len 3(2)] 3(1) d len show ?thesis
      by (simp add: select_transformation_def)
  qed
qed

lemma from_estimator_Inr:
  assumes "from_estimator E h (Obj g) term X y (RealNum s) edges tr residuals = (Inr d, h')"
  shows "\<not> xle s (Fin 0)
         \<and> (\<exists>t Xt xo Xs Xst. fe_result E g t X y s tr residuals Xt xo Xs Xst = Inr d)"
  using assms
  by (auto simp: from_estimator_def fe_logic_def check_scalar_def deepcopy_def
      split: pyobj.splits if_splits sum.splits prod.splits) blast+

text \<open>
  Claim C8, as the code has it. For an accepted \<^verbatim>\<open>standard_deviations\<close> that is not NaN
  (a positive number or infinity), the bounds of every grid row of every result satisfy
  \<open>y_low \<le> y \<le> y_high\<close> whenever the mapping applied to the bounds is non-decreasing in
  every element: on the linear scale (\<^verbatim>\<open>linear_scale=True\<close>, or a transformation that is
  \<open>None\<close> or \<open>False\<close>), on the response scale when the inverse link of the model is
  non-decreasing (\<^verbatim>\<open>linear_scale=False\<close>, or the transformation \<open>True\<close>), and under a
  transformation of the caller that applies a non-decreasing function to every element.
\<close>

theorem interval_ordered:
  assumes "s \<noteq> NaN"
  shows "(partial_effect E h (Obj g) term (RealNum s) edges linear_scale = (Inr r, h')
          \<and> (linear_scale \<or> (\<forall>a b. xle a b \<longrightarrow>
                 xle (inverse_link (gam_link g) a) (inverse_link (gam_link g) b)))
          \<longrightarrow> length (b_y_low r) = length (b_y r) \<and> length (b_y_high r) = length (b_y r)
              \<and> (\<forall>i<length (b_y r). xle (b_y_low r ! i) (b_y r ! i)
                                       \<and> xle (b_y r ! i) (b_y_high r ! i)))
       \<and> (from_estimator E h (Obj g) term X y (RealNum s) edges tr residuals = (Inr d, h'')
          \<and> (tr = TNone \<or> tr = TFalse
              \<or> tr = TTrue \<and> (\<forall>a b. xle a b \<longrightarrow>
                    xle (inverse_link (gam_link g) a) (inverse_link (gam_link g) b))
              \<or> tr = TCallable (map f) \<and> (\<forall>a b. xle a b \<longrightarrow> xle (f a) (f b)))
          \<longrightarrow> length (d_y_low d) = length (d_y d) \<and> length (d_y_high d) = length (d_y d)
              \<and> (\<forall>i<length (d_y d). xle (d_y_low d ! i) (d_y d ! i)
                                       \<and> xle (d_y d ! i) (d_y_high d ! i)))"
proof (rule conjI; rule impI)
  assume a: "partial_effect E h (Obj g) term (RealNum s) edges linear_scale = (Inr r, h')
          \<and> (linear_scale \<or> (\<forall>a b. xle a b \<longrightarrow>
                 xle (inverse_link (gam_link g) a) (inverse_link (gam_link g) b)))"
  with partial_effect_Inr[of E h g "term" s edges linear_scale r h']
  obtain t data Xo Xs mg X0 where "\<not> xle s (Fin 0)"
    "pe_result g t s linear_scale data Xo Xs mg X0 = Inr r"
    by blast
  from pe_result_band[OF this(2,1) assms] a
  show "length (b_y_low r) = length (b_y r) \<and> length (b_y_high r) = length (b_y r)
              \<and> (\<forall>i<length (b_y r). xle (b_y_low r ! i) (b_y r ! i)
                                       \<and> xle (b_y r ! i) (b_y_high r ! i))"
    by blast
next
  assume a: "from_estimator E h (Obj g) term X y (RealNum s) edges tr residuals = (Inr d, h'')
          \<and> (tr = TNone \<or> tr = TFalse
              \<or> tr = TTrue \<and> (\<forall>a b. xle a b \<longrightarrow>
                    xle (inverse_link (gam_link g) a) (inverse_link (gam_link g) b))
              \<or> tr = TCallable (map f) \<and> (\<forall>a b. xle a b \<longrightarrow> xle (f a) (f b)))"
  with from_estimator_Inr[of E h g "term" X y s edges tr residuals d h'']
  obtain t Xt xo Xs Xst where fe: "\<not> xle s (Fin 0)"
    "fe_result E g t X y s tr residuals Xt xo Xs Xst = Inr d"
    by blast
  from a have "tr = TNone \<or> tr = TFalse
              \<or> tr = TTrue \<and> (\<forall>a b. xle a b \<longrightarrow>
                    xle (inverse_link (gam_link g) a) (inverse_link (gam_link g) b))
              \<or> tr = TCallable (map f) \<and> (\<forall>a b. xle a b \<longrightarrow> xle (f a) (f b))"
    by (rule conjunct2)
  from fe_result_band[OF fe(2,1) assms this]
  show "length (d_y_low d) = length (d_y d) \<and> length (d_y_high d) = length (d_y d)
              \<and> (\<forall>i<length (d_y d). xle (d_y_low d ! i) (d_y d ! i)
                                       \<and> xle (d_y d ! i) (d_y_high d ! i))" .
qed

theorem interval_ordered_witness:
  "Fin 2 \<noteq> NaN
   \<and> \<not> isl (fst (partial_effect two_term_env two_term_heap (Obj two_term_gam) (Obj 0)
                    (RealNum (Fin 2)) () True))
   \<and> list_all2 xle
        (b_y_low (projr (fst (partial_effect two_term_env two_term_heap (Obj two_term_gam)
                    (Obj 0) (RealNum (Fin 2)) () True))))
        (b_y (projr (fst (partial_effect two_term_env two_term_heap (Obj two_term_gam)
                    (Obj 0) (RealNum (Fin 2)) () True))))
   \<and> list_all2 xle
        (b_y (projr (fst (partial_effect two_term_env two_term_heap (Obj two_term_gam)
                    (Obj 0) (RealNum (Fin 2)) () True))))
        (b_y_high (projr (fst (partial_effect two_term_env two_term_heap (Obj two_term_gam)
                    (Obj 0) (RealNum (Fin 2)) () True))))
   \<and> \<not> isl (fst (partial_effect two_term_env two_term_heap (Obj two_term_gam) (Obj 0)
                    (RealNum (Fin 2)) () False))
   \<and> list_all2 xle
        (b_y_low (projr (fst (partial_effect two_term_env two_term_heap (Obj two_term_gam)
                    (Obj 0) (RealNum (Fin 2)) () False))))
        (b_y (projr (fst (partial_effect two_term_env two_term_heap (Obj two_term_gam)
                    (Obj 0) (RealNum (Fin 2)) () False))))
   \<and> list_all2 xle
        (b_y (projr (fst (partial_effect two_term_env two_term_heap (Obj two_term_gam)
                    (Obj 0) (RealNum (Fin 2)) () False))))
        (b_y_high (projr (fst (partial_effect two_term_env two_term_heap (Obj two_term_gam)
                    (Obj 0) (RealNum (Fin 2)) () False))))
   \<and> \<not> isl (fst (from_estimator two_term_env two_term_heap (Obj two_term_gam) (Obj 0)
                    [[7, 0, 0], [3, 10, 1]] [1, 19] (RealNum (Fin 2)) () TNone True))
   \<and> list_all2 xle
        (d_y_low (projr (fst (from_estimator two_term_env two_term_heap (Obj two_term_gam)
                    (Obj 0) [[7, 0, 0], [3, 10, 1]] [1, 19] (RealNum (Fin 2)) () TNone True))))
        (d_y (projr (fst (from_estimator two_term_env two_term_heap (Obj two_term_gam)
                    (Obj 0) [[7, 0, 0], [3, 10, 1]] [1, 19] (RealNum (Fin 2)) () TNone True))))
   \<and> list_all2 xle
        (d_y (projr (fst (from_estimator two_term_env two_term_heap (Obj two_term_gam)
                    (Obj 0) [[7, 0, 0], [3, 10, 1]] [1, 19] (RealNum (Fin 2)) () TNone True))))
        (d_y_high (projr (fst (from_estimator two_term_env two_term_heap (Obj two_term_gam)
                    (Obj 0) [[7, 0, 0], [3, 10, 1]] [1, 19] (RealNum (Fin 2)) () TNone True))))
   \<and> \<not> isl (fst (from_estimator two_term_env two_term_heap (Obj two_term_gam) (Obj 0)
                    [[7, 0, 0], [3, 10, 1]] [1, 19] (RealNum (Fin 2)) () TTrue True))
   \<and> list_all2 xle
        (d_y_low (projr (fst (from_estimator two_term_env two_term_heap (Obj two_term_gam)
                    (Obj 0) [[7, 0, 0], [3, 10, 1]] [1, 19] (RealNum (Fin 2)) () TTrue True))))
        (d_y (projr (fst (from_estimator two_term_env two_term_heap (Obj two_term_gam)
                    (Obj 0) [[7, 0, 0], [3, 10, 1]] [1, 19] (RealNum (Fin 2)) () TTrue True))))
   \<and> list_all2 xle
        (d_y (projr (fst (from_estimator two_term_env two_term_heap (Obj two_term_gam)
                    (Obj 0) [[7, 0, 0], [3, 10, 1]] [1, 19] (RealNum (Fin 2)) () TTrue True))))
        (d_y_high (projr (fst (from_estimator two_term_env two_term_heap (Obj two_term_gam)
                    (Obj 0) [[7, 0, 0], [3, 10, 1]] [1, 19] (RealNum (Fin 2)) () TTrue True))))
   \<and> \<not> isl (fst (from_estimator two_term_env two_term_heap (Obj two_term_gam) (Obj 0)
                    [[7, 0, 0], [3, 10, 1]] [1, 19] (RealNum (Fin 2)) ()
                    (TCallable (map (xmul (Fin 3)))) True))
   \<and> list_all2 xle
        (d_y_low (projr (fst (from_estimator two_term_env two_term_heap (Obj two_term_gam)
                    (Obj 0) [[7, 0, 0], [3, 10, 1]] [1, 19] (RealNum (Fin 2)) ()
                    (TCallable (map (xmul (Fin 3)))) True))))
        (d_y (projr (fst (from_estimator two_term_env two_term_heap (Obj two_term_gam)
                    (Obj 0) [[7, 0, 0], [3, 10, 1]] [1, 19] (RealNum (Fin 2)) ()
                    (TCallable (map (xmul (Fin 3)))) True))))
   \<and> list_all2 xle
        (d_y (projr (fst (from_estimator two_term_env two_term_heap (Obj two_term_gam)
                    (Obj 0) [[7, 0, 0], [3, 10, 1]] [1, 19] (RealNum (Fin 2)) ()
                    (TCallable (map (xmul (Fin 3)))) True))))
        (d_y_high (projr (fst (from_estimator two_term_env two_term_heap (Obj two_term_gam)
                    (Obj 0) [[7, 0, 0], [3, 10, 1]] [1, 19] (RealNum (Fin 2)) ()
                    (TCallable (map (xmul (Fin 3)))) True))))
   \<and> d_y_low (projr (fst (from_estimator two_term_env two_term_heap (Obj two_term_gam)
                    (Obj 0) [[7, 0, 0], [3, 10, 1]] [1, 19] (RealNum (Fin 2)) ()
                    (TCallable (map (xmul (Fin 3)))) True))) ! 0 = Fin (- (6 / 5))
   \<and> d_y (projr (fst (from_estimator two_term_env two_term_heap (Obj two_term_gam)
                    (Obj 0) [[7, 0, 0], [3, 10, 1]] [1, 19] (RealNum (Fin 2)) ()
                    (TCallable (map (xmul (Fin 3)))) True))) ! 0 = Fin (- (3 / 5))
   \<and> d_y_high (projr (fst (from_estimator two_term_env two_term_heap (Obj two_term_gam)
                    (Obj 0) [[7, 0, 0], [3, 10, 1]] [1, 19] (RealNum (Fin 2)) ()
                    (TCallable (map (xmul (Fin 3)))) True))) ! 0 = Fin 0"
proof -
  let ?pe = "\<lambda>ls. partial_effect two_term_env two_term_heap (Obj two_term_gam) (Obj 0)
                    (RealNum (Fin 2)) () ls"
  let ?fe = "\<lambda>tr. from_estimator two_term_env two_term_heap (Obj two_term_gam) (Obj 0)
                    [[7, 0, 0], [3, 10, 1]] [1, 19] (RealNum (Fin 2)) () tr True"
  let ?f = "TCallable (map (xmul (Fin 3)))"
  have a: "\<not> xle (Fin 2) (Fin 0)" by simp
  have n: "Fin 2 \<noteq> NaN" by simp
  have p: "\<not> isl (fst (?pe ls))" for ls
    by (simp only: slope_partial_effect[OF a] fst_conv sum.disc not_False_eq_True)
  have q: "\<not> isl (fst (?fe tr))" for tr
    by (simp only: slope_from_estimator[OF a] fst_conv sum.disc not_False_eq_True)
  have pe: "?pe ls = (Inr (projr (fst (?pe ls))), snd (?pe ls))" for ls
    using p[of ls] by (cases "fst (?pe ls)") (simp_all add: prod_eq_iff)
  have fe: "?fe tr = (Inr (projr (fst (?fe tr))), snd (?fe tr))" for tr
    using q[of tr] by (cases "fst (?fe tr)") (simp_all add: prod_eq_iff)
  have il: "\<forall>a b. xle a b \<longrightarrow>
              xle (inverse_link (gam_link two_term_gam) a) (inverse_link (gam_link two_term_gam) b)"
    by (simp add: two_term_model)
  have mono: "\<forall>a b. xle a b \<longrightarrow> xle (xmul (Fin 3) a) (xmul (Fin 3) b)"
  proof (intro allI impI)
    fix a b assume "xle a b"
    then show "xle (xmul (Fin 3) a) (xmul (Fin 3) b)"
      by (cases a; cases b) (simp_all add: xsign_def)
  qed
  from interval_ordered[OF n, of two_term_env two_term_heap two_term_gam "Obj 0" "()" True
      "projr (fst (?pe True))" "snd (?pe True)" "[[7, 0, 0], [3, 10, 1]]" "[1, 19]" TNone True
      "projr (fst (?fe TNone))" "snd (?fe TNone)"]
    pe[of True] fe[of TNone]
  have 1: "list_all2 xle (b_y_low (projr (fst (?pe True)))) (b_y (projr (fst (?pe True))))
      \<and> list_all2 xle (b_y (projr (fst (?pe True)))) (b_y_high (projr (fst (?pe True))))
      \<and> list_all2 xle (d_y_low (projr (fst (?fe TNone)))) (d_y (projr (fst (?fe TNone))))
      \<and> list_all2 xle (d_y (projr (fst (?fe TNone)))) (d_y_high (projr (fst (?fe TNone))))"
    by (simp add: list_all2_conv_all_nth)
  from interval_ordered[OF n, of two_term_env two_term_heap two_term_gam "Obj 0" "()" False
      "projr (fst (?pe False))" "snd (?pe False)" "[[7, 0, 0], [3, 10, 1]]" "[1, 19]" TTrue True
      "projr (fst (?fe TTrue))" "snd (?fe TTrue)"]
    pe[of False] fe[of TTrue] il
  have 2: "list_all2 xle (b_y_low (projr (fst (?pe False)))) (b_y (projr (fst (?pe False))))
      \<and> list_all2 xle (b_y (projr (fst (?pe False)))) (b_y_high (projr (fst (?pe False))))
      \<and> list_all2 xle (d_y_low (projr (fst (?fe TTrue)))) (d_y (projr (fst (?fe TTrue))))
      \<and> list_all2 xle (d_y (projr (fst (?fe TTrue)))) (d_y_high (projr (fst (?fe TTrue))))"
    by (simp add: list_all2_conv_all_nth)
  from interval_ordered[OF n, of two_term_env two_term_heap two_term_gam "Obj 0" "()" False
      "projr (fst (?pe False))" "snd (?pe False)" "[[7, 0, 0], [3, 10, 1]]" "[1, 19]" ?f True
      "projr (fst (?fe ?f))" "snd (?fe ?f)" "xmul (Fin 3)"]
    fe[of ?f] mono
  have 3: "list_all2 xle (d_y_low (projr (fst (?fe ?f)))) (d_y (projr (fst (?fe ?f))))
      \<and> list_all2 xle (d_y (projr (fst (?fe ?f)))) (d_y_high (projr (fst (?fe ?f))))"
    by (simp add: list_all2_conv_all_nth)
  have len: "0 < length (linear_axis 256)" by (simp add: length_linear_axis)
  have 4: "d_y_low (projr (fst (?fe ?f))) ! 0 = Fin (- (6 / 5))
      \<and> d_y (projr (fst (?fe ?f))) ! 0 = Fin (- (3 / 5))
      \<and> d_y_high (projr (fst (?fe ?f))) ! 0 = Fin 0"
    unfolding slope_from_estimator[OF a]
    using len by (simp add: select_transformation_def linear_axis_first xsub_def)
  from n p[of True] p[of False] q[of TNone] q[of TTrue] q[of ?f] 1 2 3 4 show ?thesis
    by blast
qed

text \<open>
  The claim as written fails: with the caller's transformation \<open>v \<mapsto> -v\<close> the first grid row
  of \<^verbatim>\<open>from_estimator\<close> has \<open>y_low = 0.3\<close> above \<open>y = 0.2\<close>.
\<close>

theorem decreasing_transformation_counterexample:
  "\<not> isl (fst (from_estimator linear_env [linear_term] (Obj linear_gam) (Obj 0)
                [[0], [10]] [1, 19] (RealNum (Fin 1)) () (TCallable (map xneg)) True))
   \<and> d_y_low (projr (fst (from_estimator linear_env [linear_term] (Obj linear_gam) (Obj 0)
                [[0], [10]] [1, 19] (RealNum (Fin 1)) () (TCallable (map xneg)) True))) ! 0
       = Fin (3 / 10)
   \<and> d_y (projr (fst (from_estimator linear_env [linear_term] (Obj linear_gam) (Obj 0)
                [[0], [10]] [1, 19] (RealNum (Fin 1)) () (TCallable (map xneg)) True))) ! 0
       = Fin (1 / 5)
   \<and> \<not> xle (Fin (3 / 10)) (Fin (1 / 5))"
proof -
  have a: "\<not> xle (Fin 1) (Fin 0)" by simp
  have len: "0 < length (linear_axis 256)" by (simp add: length_linear_axis)
  show ?thesis
    unfolding linear_from_estimator[OF a]
    using len by (simp add: select_transformation_def linear_axis_first xsub_def)
qed

subsection \<open>The validation of \<open>standard_deviations\<close>\<close>

lemma infinite_band:
  assumes "0 \<notin> set v"
  shows "map (\<lambda>x. xsub (Fin (x * 2)) (xmul PInf (Fin \<bar>x\<bar>))) v = replicate (length v) NInf"
    and "map (\<lambda>x. xadd (Fin (x * 2)) (xmul PInf (Fin \<bar>x\<bar>))) v = replicate (length v) PInf"
proof -
  have "map (\<lambda>x. xsub (Fin (x * 2)) (xmul PInf (Fin \<bar>x\<bar>))) v = map (\<lambda>x. NInf) v"
    using assms by (intro map_cong) (auto simp: xsub_def xsign_def)
  then show "map (\<lambda>x. xsub (Fin (x * 2)) (xmul PInf (Fin \<bar>x\<bar>))) v = replicate (length v) NInf"
    by (simp only: map_replicate_const)
  have "map (\<lambda>x. xadd (Fin (x * 2)) (xmul PInf (Fin \<bar>x\<bar>))) v = map (\<lambda>x. PInf) v"
    using assms by (intro map_cong) (auto simp: xsign_def)
  then show "map (\<lambda>x. xadd (Fin (x * 2)) (xmul PInf (Fin \<bar>x\<bar>))) v = replicate (length v) PInf"
    by (simp only: map_replicate_const)
qed

text \<open>
  Claim C6, as the code has it. A \<^verbatim>\<open>standard_deviations\<close> that is not a real number, or
  that is at most zero, is rejected by both functions with an invalid-argument error before
  anything is computed: the store is as it was, no copy has been made. Zero and \<open>-1\<close> are
  rejected with a \<open>ValueError\<close>. The check compares with zero only: infinity and NaN pass it.
\<close>

theorem standard_deviations_validated:
  assumes "sd = NotReal v \<or> sd = RealNum s \<and> xle s (Fin 0)"
  shows "(\<exists>e. check_scalar sd = Inl e \<and> ((\<exists>m. e = TypeError m) \<or> (\<exists>m. e = ValueError m)))
       \<and> (\<exists>e. partial_effect E h gam term sd edges linear_scale = (Inl e, h)
              \<and> ((\<exists>m. e = TypeError m) \<or> (\<exists>m. e = ValueError m) \<or> e = NotFittedError))
       \<and> (\<exists>e. from_estimator E h gam term X y sd edges tr residuals = (Inl e, h)
              \<and> ((\<exists>m. e = TypeError m) \<or> (\<exists>m. e = ValueError m) \<or> e = NotFittedError))
       \<and> check_scalar (RealNum (Fin 0)) = Inl (ValueError ''standard_deviations must be > 0.'')
       \<and> check_scalar (RealNum (Fin (- 1))) = Inl (ValueError ''standard_deviations must be > 0.'')
       \<and> check_scalar (RealNum PInf) = Inr PInf
       \<and> check_scalar (RealNum NaN) = Inr NaN"
proof -
  from assms have c: "\<exists>e. check_scalar sd = Inl e \<and> ((\<exists>m. e = TypeError m) \<or> (\<exists>m. e = ValueError m))"
    by (auto simp: check_scalar_def)
  then obtain e where e: "check_scalar sd = Inl e" "(\<exists>m. e = TypeError m) \<or> (\<exists>m. e = ValueError m)"
    by blast
  have p: "\<exists>e. partial_effect E h gam term sd edges linear_scale = (Inl e, h)
              \<and> ((\<exists>m. e = TypeError m) \<or> (\<exists>m. e = ValueError m) \<or> e = NotFittedError)"
    using e by (auto simp: partial_effect_def split: pyobj.splits)
  have f: "\<exists>e. from_estimator E h gam term X y sd edges tr residuals = (Inl e, h)
              \<and> ((\<exists>m. e = TypeError m) \<or> (\<exists>m. e = ValueError m) \<or> e = NotFittedError)"
    using e by (auto simp: from_estimator_def split: pyobj.splits)
  from c p f show ?thesis
    by (simp add: check_scalar_def)
qed

theorem standard_deviations_validated_witness:
  "partial_effect linear_env [linear_term] (Obj linear_gam) (Obj 0) (RealNum (Fin 0)) () True
     = (Inl (ValueError ''standard_deviations must be > 0.''), [linear_term])
   \<and> from_estimator linear_env [linear_term] (Obj linear_gam) (Obj 0) [[0], [10]] [1, 19]
       (RealNum (Fin (- 1))) () TNone True
     = (Inl (ValueError ''standard_deviations must be > 0.''), [linear_term])
   \<and> check_scalar (RealNum (Fin 0)) = Inl (ValueError ''standard_deviations must be > 0.'')
   \<and> check_scalar (RealNum (Fin (- 1))) = Inl (ValueError ''standard_deviations must be > 0.'')"
proof -
  have h0: "RealNum (Fin 0) = NotReal [] \<or> RealNum (Fin 0) = RealNum (Fin 0) \<and> xle (Fin 0) (Fin 0)"
    by simp
  have v: "kind linear_term = Linear" "fitted linear_term" "gam_fitted linear_gam"
    "term_in linear_env [linear_term] 0 (terms linear_gam)"
    by (simp_all add: linear_term_def linear_gam_def term_in_def)
  from standard_deviations_validated[OF h0, of linear_env "[linear_term]" "Obj linear_gam"
      "Obj 0" "()" True "[[0], [10]]" "[1, 19]" TNone True] v
  show ?thesis
    by (simp add: partial_effect_def from_estimator_def check_scalar_def)
qed

text \<open>
  The claim as written fails: \<^verbatim>\<open>standard_deviations = inf\<close> is not finite and is accepted;
  the result has the lower bound \<open>-inf\<close> and the upper bound \<open>inf\<close> in every row.
\<close>

theorem infinite_standard_deviations_counterexample:
  "check_scalar (RealNum PInf) = Inr PInf
   \<and> \<not> isl (fst (partial_effect linear_env [linear_term] (Obj linear_gam) (Obj 0)
                    (RealNum PInf) () True))
   \<and> b_y_low (projr (fst (partial_effect linear_env [linear_term] (Obj linear_gam) (Obj 0)
                    (RealNum PInf) () True))) = replicate 100 NInf
   \<and> b_y_high (projr (fst (partial_effect linear_env [linear_term] (Obj linear_gam) (Obj 0)
                    (RealNum PInf) () True))) = replicate 100 PInf"
proof -
  have a: "\<not> xle PInf (Fin 0)" by simp
  have nz: "0 \<notin> set (linear_axis 100)" by (rule linear_axis_nonzero) simp
  have len: "length (linear_axis 100) = 100" by (simp add: length_linear_axis)
  let ?pe = "partial_effect linear_env [linear_term] (Obj linear_gam) (Obj 0) (RealNum PInf) () True"
  note pe = linear_partial_effect[OF a, of "()" True]
  have 1: "\<not> isl (fst ?pe)"
    by (simp only: pe fst_conv sum.disc not_False_eq_True)
  have 2: "b_y_low (projr (fst ?pe)) = replicate 100 NInf"
    by (simp only: pe fst_conv sum.sel bunch.select_convs infinite_band(1)[OF nz] len)
  have 3: "b_y_high (projr (fst ?pe)) = replicate 100 PInf"
    by (simp only: pe fst_conv sum.sel bunch.select_convs infinite_band(2)[OF nz] len)
  have 4: "check_scalar (RealNum PInf) = Inr PInf"
    by (simp add: check_scalar_def)
  from 1 2 3 4 show ?thesis by blast
qed

subsection \<open>The caller's term\<close>

lemma term_in_agree:
  assumes "h' ! a = h ! a" "\<forall>b\<in>set ts. h' ! b = h ! b"
  shows "term_in E h' a ts = term_in E h a ts"
  using assms by (simp add: term_in_def list_ex_iff)

lemma partial_effect_agree:
  assumes "h' ! a = h ! a" "\<forall>b\<in>set (terms g). h' ! b = h ! b"
  shows "fst (partial_effect E h' (Obj g) (Obj a) sd edges linear_scale)
           = fst (partial_effect E h (Obj g) (Obj a) sd edges linear_scale)"
  using assms term_in_agree[OF assms, of E]
  by (simp add: partial_effect_def deepcopy_def split: sum.splits prod.splits)

lemma from_estimator_agree:
  assumes "h' ! a = h ! a" "\<forall>b\<in>set (terms g). h' ! b = h ! b"
  shows "fst (from_estimator E h' (Obj g) (Obj a) X y sd edges tr residuals)
           = fst (from_estimator E h (Obj g) (Obj a) X y sd edges tr residuals)"
  using assms term_in_agree[OF assms, of E]
  by (simp add: from_estimator_def deepcopy_def split: sum.splits prod.splits)

lemma partial_effect_store:
  "\<exists>ts. snd (partial_effect E h gam term sd edges linear_scale) = h @ ts"
  by (auto simp: partial_effect_def deepcopy_def split: pyobj.splits sum.splits prod.splits)

lemma from_estimator_store:
  "\<exists>ts. snd (from_estimator E h gam term X y sd edges tr residuals) = h @ ts"
  by (auto simp: from_estimator_def deepcopy_def split: pyobj.splits sum.splits prod.splits)

text \<open>
  Claim C9. Both functions leave every object of the caller's store as it was, the term among
  them: what they change is the deep copy, allocated behind the store. A second call with
  the same arguments, on the store the first call left, returns the same result.
\<close>

theorem caller_term_unchanged:
  assumes "a < length h" and "\<forall>b\<in>set (terms g). b < length h"
  shows "(\<forall>b<length h. snd (partial_effect E h (Obj g) (Obj a) sd edges linear_scale) ! b = h ! b)
       \<and> fst (partial_effect E (snd (partial_effect E h (Obj g) (Obj a) sd edges linear_scale))
                (Obj g) (Obj a) sd edges linear_scale)
           = fst (partial_effect E h (Obj g) (Obj a) sd edges linear_scale)
       \<and> (\<forall>b<length h. snd (from_estimator E h (Obj g) (Obj a) X y sd edges tr residuals) ! b
                          = h ! b)
       \<and> fst (from_estimator E (snd (from_estimator E h (Obj g) (Obj a) X y sd edges tr residuals))
                (Obj g) (Obj a) X y sd edges tr residuals)
           = fst (from_estimator E h (Obj g) (Obj a) X y sd edges tr residuals)"
proof -
  obtain ts where p: "snd (partial_effect E h (Obj g) (Obj a) sd edges linear_scale) = h @ ts"
    using partial_effect_store[of E h "Obj g" "Obj a" sd edges linear_scale] by blast
  obtain us where f: "snd (from_estimator E h (Obj g) (Obj a) X y sd edges tr residuals) = h @ us"
    using from_estimator_store[of E h "Obj g" "Obj a" X y sd edges tr residuals] by blast
  have 1: "\<forall>b<length h. (h @ ts) ! b = h ! b" "\<forall>b<length h. (h @ us) ! b = h ! b"
    by (simp_all add: nth_append)
  have 2: "fst (partial_effect E (h @ ts) (Obj g) (Obj a) sd edges linear_scale)
           = fst (partial_effect E h (Obj g) (Obj a) sd edges linear_scale)"
    using assms by (intro partial_effect_agree) (auto simp: nth_append)
  have 3: "fst (from_estimator E (h @ us) (Obj g) (Obj a) X y sd edges tr residuals)
           = fst (from_estimator E h (Obj g) (Obj a) X y sd edges tr residuals)"
    using assms by (intro from_estimator_agree) (auto simp: nth_append)
  from 1 2 3 show ?thesis
    unfolding p f by blast
qed

theorem caller_term_unchanged_witness:
  "(0::nat) < length two_term_heap
   \<and> two_term_heap ! 0 = slope_term \<and> feature slope_term = ByIndex 1
   \<and> snd (partial_effect two_term_env two_term_heap (Obj two_term_gam) (Obj 0)
            (RealNum (Fin 1)) () True)
       = [slope_term, level_term, Term Linear (ByIndex 0) True [2] [0] [] []]
   \<and> snd (partial_effect two_term_env two_term_heap (Obj two_term_gam) (Obj 0)
            (RealNum (Fin 1)) () True) ! 0
       = slope_term
   \<and> \<not> isl (fst (partial_effect two_term_env two_term_heap (Obj two_term_gam) (Obj 0)
                    (RealNum (Fin 1)) () True))
   \<and> fst (partial_effect two_term_env
            (snd (partial_effect two_term_env two_term_heap (Obj two_term_gam) (Obj 0)
                    (RealNum (Fin 1)) () True))
            (Obj two_term_gam) (Obj 0) (RealNum (Fin 1)) () True)
       = fst (partial_effect two_term_env two_term_heap (Obj two_term_gam) (Obj 0)
                (RealNum (Fin 1)) () True)
   \<and> snd (from_estimator two_term_env two_term_heap (Obj two_term_gam) (Obj 0)
            [[7, 0, 0], [3, 10, 1]] [1, 19] (RealNum (Fin 1)) () TNone True)
       = [slope_term, level_term, Term Linear (ByIndex 0) True [2] [0] [] []]
   \<and> snd (from_estimator two_term_env two_term_heap (Obj two_term_gam) (Obj 0)
            [[7, 0, 0], [3, 10, 1]] [1, 19] (RealNum (Fin 1)) () TNone True) ! 0
       = slope_term
   \<and> \<not> isl (fst (from_estimator two_term_env two_term_heap (Obj two_term_gam) (Obj 0)
                    [[7, 0, 0], [3, 10, 1]] [1, 19] (RealNum (Fin 1)) () TNone True))
   \<and> fst (from_estimator two_term_env
            (snd (from_estimator two_term_env two_term_heap (Obj two_term_gam) (Obj 0)
                    [[7, 0, 0], [3, 10, 1]] [1, 19] (RealNum (Fin 1)) () TNone True))
            (Obj two_term_gam) (Obj 0) [[7, 0, 0], [3, 10, 1]] [1, 19] (RealNum (Fin 1)) ()
            TNone True)
       = fst (from_estimator two_term_env two_term_heap (Obj two_term_gam) (Obj 0)
                [[7, 0, 0], [3, 10, 1]] [1, 19] (RealNum (Fin 1)) () TNone True)"
proof -
  let ?pe = "partial_effect two_term_env two_term_heap (Obj two_term_gam) (Obj 0)
               (RealNum (Fin 1)) () True"
  let ?fe = "from_estimator two_term_env two_term_heap (Obj two_term_gam) (Obj 0)
               [[7, 0, 0], [3, 10, 1]] [1, 19] (RealNum (Fin 1)) () TNone True"
  have a: "\<not> xle (Fin 1) (Fin 0)" by simp
  have h1: "(0::nat) < length two_term_heap" by (simp add: two_term_heap_def)
  have h2: "\<forall>b\<in>set (terms two_term_gam). b < length two_term_heap"
    by (simp add: two_term_gam_def two_term_heap_def)
  have t: "two_term_heap ! 0 = slope_term" "feature slope_term = ByIndex 1"
    by (simp_all add: two_term_heap_def slope_term_def)
  have s1: "snd ?pe = [slope_term, level_term, Term Linear (ByIndex 0) True [2] [0] [] []]"
    by (simp only: slope_partial_effect[OF a] snd_conv linear_term_def)
  have s2: "snd ?fe = [slope_term, level_term, Term Linear (ByIndex 0) True [2] [0] [] []]"
    by (simp only: slope_from_estimator[OF a] snd_conv linear_term_def)
  have r1: "\<not> isl (fst ?pe)"
    by (simp only: slope_partial_effect[OF a] fst_conv sum.disc not_False_eq_True)
  have r2: "\<not> isl (fst ?fe)"
    by (simp only: slope_from_estimator[OF a] fst_conv sum.disc not_False_eq_True)
  from caller_term_unchanged[OF h1 h2, of two_term_env "RealNum (Fin 1)" "()" True
      "[[7, 0, 0], [3, 10, 1]]" "[1, 19]" TNone True] h1 t(1)
  have u: "snd ?pe ! 0 = slope_term"
    "fst (partial_effect two_term_env (snd ?pe) (Obj two_term_gam) (Obj 0) (RealNum (Fin 1)) ()
            True) = fst ?pe"
    "snd ?fe ! 0 = slope_term"
    "fst (from_estimator two_term_env (snd ?fe) (Obj two_term_gam) (Obj 0)
            [[7, 0, 0], [3, 10, 1]] [1, 19] (RealNum (Fin 1)) () TNone True) = fst ?fe"
    by simp_all
  from h1 t s1 s2 r1 r2 u show ?thesis
    by blast
qed

subsection \<open>The partial residuals on the response scale\<close>

text \<open>
  What the two functions compute. On the response scale \<^verbatim>\<open>partial_effect\<close> adds the
  response residual \<open>y - inverse_link(model_matrix @ coef)\<close> to the inverse link of the
  term's contribution and wraps the sum in a tuple; \<^verbatim>\<open>from_estimator\<close> adds the
  link-scale residual \<open>link(y_noboundary) - link(predict(X))\<close> to the contribution and
  transforms the sum.
\<close>

lemma pe_result_response_scale:
  assumes "pe_result g t s False data Xo Xs mg X = Inr r"
  shows "\<exists>c eta. matvec Xo (term_coef t) = Inr c
           \<and> matvec (model_matrix g) (gam_coef g) = Inr eta
           \<and> b_y_partial_residuals r
               = Tuple1 (map2 xadd (map (\<lambda>v. inverse_link (gam_link g) (Fin v)) c)
                          (map2 xsub (map Fin (gam_y g))
                             (map (\<lambda>v. inverse_link (gam_link g) (Fin v)) eta)))"
  using assms
  by (auto simp: pe_result_def ebind_eq_Inr Let_def vzip_eq_Inr split: if_splits)

lemma fe_result_residuals:
  assumes "fe_result E g t X y s tr True Xt xo Xs Xst = Inr d"
  shows "\<exists>c mu. matvec Xt (term_coef t) = Inr c \<and> predict E g X = Inr mu
           \<and> d_y_partial_residuals d
               = Some (select_transformation g tr
                        (map2 xadd (map Fin c)
                           (map2 xsub (map (link (gam_link g)) (y_noboundary (gam_link g) y))
                              (map (link (gam_link g)) mu))))"
  using assms
  by (auto simp: fe_result_def ebind_eq_Inr Let_def vzip_eq_Inr split: if_splits)

text \<open>
  Claim C2, at the failing input. On the model with one linear term and
  \<^verbatim>\<open>linear_scale=False\<close>, \<^verbatim>\<open>partial_effect\<close> returns the partial residuals wrapped in a
  tuple of one element, \<open>([1, 19],)\<close>, where \<^verbatim>\<open>from_estimator\<close> with the inverse link as
  transformation returns the plain array \<open>[1, 19]\<close>.
\<close>

theorem response_scale_residuals_tuple:
  "b_y_partial_residuals (projr (fst (partial_effect linear_env [linear_term] (Obj linear_gam)
       (Obj 0) (RealNum (Fin 1)) () False))) = Tuple1 [Fin 1, Fin 19]
   \<and> d_y_partial_residuals (projr (fst (from_estimator linear_env [linear_term] (Obj linear_gam)
       (Obj 0) [[0], [10]] [1, 19] (RealNum (Fin 1)) () TTrue True))) = Some [Fin 1, Fin 19]"
proof -
  have a: "\<not> xle (Fin 1) (Fin 0)" by simp
  show ?thesis
    unfolding linear_from_estimator[OF a] linear_partial_effect[OF a]
    by (simp add: select_transformation_def linear_gam_def identity_link_def)
qed


end
